theory Spec2Isabelle
  imports Main
begin

section \<open>JavaScript values and strings\<close>

text \<open>
  A string is a list of code units; a \<^typ>\<open>char\<close> stands for a UTF-16 code unit below 256.
  A property that the host may leave out, or fill with a value of any type, is a \<open>jsval\<close>;
  \<open>truthy\<close> is the coercion that \<^verbatim>\<open>if (v)\<close> and \<^verbatim>\<open>v || w\<close> apply.
\<close>

datatype jsval = JUndefined | JNull | JBool bool | JNum int | JStr string

fun truthy :: "jsval \<Rightarrow> bool" where
  "truthy JUndefined = False"
| "truthy JNull = False"
| "truthy (JBool b) = b"
| "truthy (JNum n) = (n \<noteq> 0)"
| "truthy (JStr s) = (s \<noteq> [])"

text \<open>\<^verbatim>\<open>s || ''\<close> for a property that is a string or absent.\<close>

definition or_empty :: "string option \<Rightarrow> string" where
  "or_empty v = (case v of None \<Rightarrow> [] | Some s \<Rightarrow> s)"

text \<open>\<^verbatim>\<open>Array.prototype.join\<close> on an array of strings.\<close>

fun join :: "string \<Rightarrow> string list \<Rightarrow> string" where
  "join sep [] = []"
| "join sep [x] = x"
| "join sep (x # y # ys) = x @ sep @ join sep (y # ys)"

text \<open>\<^verbatim>\<open>Array.prototype.indexOf\<close>: the first position holding the value, or -1.\<close>

fun indexOf :: "'a list \<Rightarrow> 'a \<Rightarrow> int" where
  "indexOf [] v = -1"
| "indexOf (x # xs) v =
     (if x = v then 0 else (let i = indexOf xs v in if i = -1 then -1 else i + 1))"

text \<open>\<^verbatim>\<open>a.splice(idx, 1)\<close> for \<open>0 \<le> idx\<close>: the array without the element at \<open>idx\<close>.\<close>

definition splice1 :: "'a list \<Rightarrow> int \<Rightarrow> 'a list" where
  "splice1 xs idx = take (nat idx) xs @ drop (Suc (nat idx)) xs"

text \<open>\<^verbatim>\<open>String.prototype.toLowerCase\<close> on code units below 256.\<close>

definition toLowerCase :: "string \<Rightarrow> string" where
  "toLowerCase s =
     map (\<lambda>c. let n = (of_char c :: nat)
               in if (65 \<le> n \<and> n \<le> 90) \<or> (192 \<le> n \<and> n \<le> 222 \<and> n \<noteq> 215)
                  then char_of (n + 32) else c) s"

text \<open>
  The replacement text of \<^verbatim>\<open>String.prototype.replace\<close> (GetSubstitution of the language
  standard): \<^verbatim>\<open>$$\<close> is a dollar sign, \<^verbatim>\<open>$&\<close> the matched text, \<^verbatim>\<open>$`\<close> the text before
  the match, \<^verbatim>\<open>$'\<close> the text after it, \<^verbatim>\<open>$n\<close> and \<^verbatim>\<open>$nn\<close> a capture when there is one
  with that number; any other dollar sign stands for itself.
\<close>

definition is_digit :: "char \<Rightarrow> bool" where
  "is_digit c = (48 \<le> (of_char c :: nat) \<and> (of_char c :: nat) \<le> 57)"

definition digit_val :: "char \<Rightarrow> nat" where
  "digit_val c = of_char c - 48"

fun getSubstitution :: "string list \<Rightarrow> string \<Rightarrow> string \<Rightarrow> string \<Rightarrow> string \<Rightarrow> string" where
  "getSubstitution caps matched pre post [] = []"
| "getSubstitution caps matched pre post [c] = [c]"
| "getSubstitution caps matched pre post (c # d # r) =
     (if c \<noteq> CHR ''$'' then c # getSubstitution caps matched pre post (d # r)
      else if d = CHR ''$'' then CHR ''$'' # getSubstitution caps matched pre post r
      else if d = CHR ''&'' then matched @ getSubstitution caps matched pre post r
      else if d = CHR 0x60 then pre @ getSubstitution caps matched pre post r
      else if d = CHR 0x27 then post @ getSubstitution caps matched pre post r
      else if is_digit d then
        (case r of
           e # r' \<Rightarrow>
             if is_digit e \<and> \<not> (10 * digit_val d + digit_val e > length caps)
             then (if 1 \<le> 10 * digit_val d + digit_val e
                   then caps ! (10 * digit_val d + digit_val e - 1) @
                        getSubstitution caps matched pre post r'
                   else c # d # e # getSubstitution caps matched pre post r')
             else (if 1 \<le> digit_val d \<and> digit_val d \<le> length caps
                   then caps ! (digit_val d - 1) @ getSubstitution caps matched pre post r
                   else c # d # getSubstitution caps matched pre post r)
         | [] \<Rightarrow>
             (if 1 \<le> digit_val d \<and> digit_val d \<le> length caps
              then caps ! (digit_val d - 1) @ getSubstitution caps matched pre post r
              else c # d # getSubstitution caps matched pre post r))
      else c # getSubstitution caps matched pre post (d # r))"

text \<open>Whether a text starts with a given text.\<close>

definition startsWith :: "string \<Rightarrow> string \<Rightarrow> bool" where
  "startsWith s pat = (take (length pat) s = pat)"

text \<open>
  The first occurrence of a text in another: the text before it and the text after it.
  The empty text occurs at the very start.
\<close>

fun find_first :: "string \<Rightarrow> string \<Rightarrow> (string \<times> string) option" where
  "find_first pat [] = (if pat = [] then Some ([], []) else None)"
| "find_first pat (c # cs) =
     (if startsWith (c # cs) pat then Some ([], drop (length pat) (c # cs))
      else (case find_first pat cs of
              Some (pre, post) \<Rightarrow> Some (c # pre, post)
            | None \<Rightarrow> None))"

text \<open>
  \<^verbatim>\<open>s.replace(pat, repl)\<close> with a string pattern: only the first occurrence is replaced,
  and there are no captures.
\<close>

definition replace :: "string \<Rightarrow> string \<Rightarrow> string \<Rightarrow> string" where
  "replace s pat repl =
     (case find_first pat s of
        None \<Rightarrow> s
      | Some (pre, post) \<Rightarrow> pre @ getSubstitution [] pat pre post repl @ post)"

text \<open>\<^verbatim>\<open>s.replace(/\\/g, '/')\<close>: every backslash becomes a forward slash.\<close>

definition forward_slashes :: "string \<Rightarrow> string" where
  "forward_slashes s = map (\<lambda>c. if c = CHR 0x5C then CHR ''/'' else c) s"

text \<open>\<^verbatim>\<open>s.split(/#/).pop()\<close>: what follows the last \<^verbatim>\<open>#\<close>, or all of \<open>s\<close>.\<close>

definition after_last_hash :: "string \<Rightarrow> string" where
  "after_last_hash s = rev (takeWhile (\<lambda>c. c \<noteq> CHR ''#'') (rev s))"

section \<open>Parameter items\<close>

text \<open>An entry of \<^verbatim>\<open>doclet.params\<close> or \<^verbatim>\<open>doclet.returns\<close>, and a type expression.\<close>

record type_expr =
  names :: "string list option"

record item =
  item_name :: "string option"
  optional :: jsval
  nullable :: jsval
  variable :: jsval
  item_type :: "type_expr option"

definition getSignatureAttributes :: "item \<Rightarrow> string list" where
  "getSignatureAttributes it =
     (let attributes = [];
          attributes = (if truthy (optional it) then attributes @ [''opt''] else attributes);
          attributes = (if nullable it = JBool True then attributes @ [''nullable'']
                        else if nullable it = JBool False then attributes @ [''non-null'']
                        else attributes)
      in attributes)"

definition updateItemName :: "item \<Rightarrow> string" where
  "updateItemName it =
     (let attributes = getSignatureAttributes it;
          itemName = or_empty (item_name it);
          itemName = (if truthy (variable it) then ''&hellip;'' @ itemName else itemName)
      in if attributes \<noteq> [] then
           (let idx = indexOf attributes ''opt'';
                (itemName, attributes) =
                   (if idx \<noteq> -1
                    then (''<span class=\"optional-param\">['' @ itemName @ '']</span>'',
                          splice1 attributes idx)
                    else (itemName, attributes))
            in if length attributes > 0
               then itemName @ ''<span class=\"signature-attributes\">'' @
                    join '', '' attributes @ ''</span>''
               else itemName)
         else itemName)"


section \<open>Example captions\<close>

text \<open>
  \<open>formatExample\<close> tests its argument against the regular expression
  \<^verbatim>\<open>/^\s*<caption>([\s\S]+?)<\/caption>(\s*[\n\r])([\s\S]+)$/i\<close>.
  The matcher below backtracks the way the expression does: each fragment is a function
  of the text that is left, a greedy star first tries to take one more character, a lazy
  plus first tries to stop.
\<close>

text \<open>\<^verbatim>\<open>\s\<close> on code units below 256: tab, LF, VT, FF, CR, space and no-break space.\<close>

definition is_space :: "char \<Rightarrow> bool" where
  "is_space c = (c \<in> set [CHR 0x09, CHR 0x0A, CHR 0x0B, CHR 0x0C, CHR 0x0D, CHR 0x20, CHR 0xA0])"

text \<open>\<^verbatim>\<open>[\n\r]\<close>\<close>

definition is_line_end :: "char \<Rightarrow> bool" where
  "is_line_end c = (c = CHR 0x0A \<or> c = CHR 0x0D)"

text \<open>
  The \<^verbatim>\<open>i\<close> flag compares the code units of two characters after mapping them to
  upper case (a to z, and the Latin-1 letters that have an upper case below 256).
\<close>

definition canonicalize :: "char \<Rightarrow> nat" where
  "canonicalize c =
     (let n = (of_char c :: nat)
      in if (97 \<le> n \<and> n \<le> 122) \<or> (224 \<le> n \<and> n \<le> 254 \<and> n \<noteq> 247)
         then n - 32 else n)"

text \<open>A literal of the pattern, matched at the start of the text without regard to case.\<close>

definition starts_with_ci :: "string \<Rightarrow> string \<Rightarrow> bool" where
  "starts_with_ci s lit =
     (length lit \<le> length s \<and>
      map canonicalize (take (length lit) s) = map canonicalize lit)"

text \<open>
  \<^verbatim>\<open>(\s*[\n\r])([\s\S]+)$\<close>: the star takes a white-space character and goes on; when
  that fails it stops, the character has to be a line end and at least one character has
  to follow. The result is the pair of the groups 2 and 3.
\<close>

fun match_tail :: "string \<Rightarrow> (string \<times> string) option" where
  "match_tail [] = None"
| "match_tail (c # cs) =
     (case (if is_space c then match_tail cs else None) of
        Some (g2, g3) \<Rightarrow> Some (c # g2, g3)
      | None \<Rightarrow> if is_line_end c \<and> cs \<noteq> [] then Some ([c], cs) else None)"

text \<open>
  The rest of \<^verbatim>\<open>[\s\S]+?\<close> once it holds a character, with all that follows it: the lazy
  plus first tries the closing tag here, and takes one more character when that fails.
  The result is what the plus took from here on, and the groups 2 and 3.
\<close>

fun match_lazy :: "string \<Rightarrow> (string \<times> string \<times> string) option" where
  "match_lazy [] = None"
| "match_lazy (c # cs) =
     (case (if starts_with_ci (c # cs) ''</caption>''
            then match_tail (drop (length ''</caption>'') (c # cs)) else None) of
        Some (g2, g3) \<Rightarrow> Some ([], g2, g3)
      | None \<Rightarrow>
          (case match_lazy cs of
             Some (g1, g2, g3) \<Rightarrow> Some (c # g1, g2, g3)
           | None \<Rightarrow> None))"

text \<open>\<^verbatim>\<open><caption>([\s\S]+?)...\<close>: the opening tag, then one character at least.\<close>

definition match_open :: "string \<Rightarrow> (string \<times> string \<times> string) option" where
  "match_open s =
     (if starts_with_ci s ''<caption>''
      then (case drop (length ''<caption>'') s of
              [] \<Rightarrow> None
            | c # cs \<Rightarrow>
                (case match_lazy cs of
                   Some (g1, g2, g3) \<Rightarrow> Some (c # g1, g2, g3)
                 | None \<Rightarrow> None))
      else None)"

text \<open>\<^verbatim>\<open>^\s*\<close> and the rest of the expression.\<close>

fun match_example :: "string \<Rightarrow> (string \<times> string \<times> string) option" where
  "match_example [] = match_open []"
| "match_example (c # cs) =
     (case (if is_space c then match_example cs else None) of
        Some r \<Rightarrow> Some r
      | None \<Rightarrow> match_open (c # cs))"

record example =
  caption :: string
  code :: string

definition formatExample :: "string \<Rightarrow> example" where
  "formatExample ex =
     (let (caption, code) =
            (case match_example ex of
               Some (g1, g2, g3) \<Rightarrow> (Some g1, Some g3)
             | None \<Rightarrow> (None, None))
      in \<lparr>caption = (case caption of Some c \<Rightarrow> if c \<noteq> [] then c else [] | None \<Rightarrow> []),
          code = (case code of Some c \<Rightarrow> if c \<noteq> [] then c else ex | None \<Rightarrow> ex)\<rparr>)"

text \<open>Whether a literal occurs somewhere in a text, without regard to case.\<close>

fun contains_ci :: "string \<Rightarrow> string \<Rightarrow> bool" where
  "contains_ci [] lit = starts_with_ci [] lit"
| "contains_ci (c # cs) lit = (starts_with_ci (c # cs) lit \<or> contains_ci cs lit)"

section \<open>Doclets\<close>

text \<open>
  A doclet as the host supplies it, with the properties this template reads or writes.
  An entry of \<open>examples\<close> is a string when it comes from the host and a record once
  \<open>formatExample\<close> has run. The properties \<open>attribs\<close>, \<open>signature\<close>, \<open>doclet_id\<close> (the
  property \<^verbatim>\<open>id\<close>) and \<open>ancestors\<close> are the ones the template adds, \<open>shortpath\<close> is added
  to \<open>meta\<close>. Every doclet of the host has a \<open>kind\<close>, a \<open>name\<close> and a \<open>longname\<close>, and a
  \<open>meta\<close> has a \<open>filename\<close>: these are strings here, the other properties can be absent.
\<close>

record meta =
  path :: "string option"
  filename :: string
  shortpath :: "string option"

datatype example_item = ExText string | ExFormatted example

record doclet =
  kind :: string
  name :: string
  longname :: string
  description :: "string option"
  examples :: "example_item list option"
  see :: "string list option"
  type :: "type_expr option"
  params :: "item list option"
  returns :: "item list option"
  meta :: "meta option"
  attribs :: "string option"
  signature :: "string option"
  doclet_id :: "string option"
  ancestors :: "string list option"

datatype error = TypeError | ReferenceError

section \<open>Collaborators\<close>

text \<open>
  The template helper of the host, its path and file-system modules, the template engine
  and the scanner are not part of this repository: they are parameters. \<open>'h\<close> is the state
  of the template helper (its link registry and the file names it has handed out), \<open>'v\<close>
  the view. \<open>find_longname\<close> is \<^verbatim>\<open>helper.find(taffy(data), {longname: longname})\<close>,
  \<open>scan\<close> is the scanner with the filter made from the configuration. Of the registry only
  the object \<^verbatim>\<open>helper.longnameToUrl\<close> is read directly, as a list of keys and values in
  key order. A collaborator that throws ends the run; only the exception of
  \<^verbatim>\<open>fs.readFileSync\<close>, which the template catches, is a value here.
\<close>

text \<open>
  A doclet with the \<^verbatim>\<open>modules\<close> list that \<open>attachModuleSymbols\<close> adds to a module: the list
  holds copies of doclets, which can carry such a list themselves.
\<close>

datatype symbol = Symbol (props: doclet) (modules: "symbol list option")

text \<open>A tutorial node; \<open>parse\<close> is the result of its method \<^verbatim>\<open>parse()\<close>.\<close>

datatype tutorial =
  Tutorial (title: string) (tutorial_name: string) (parse: string) (children: "tutorial list")

text \<open>
  What a page is rendered from: \<^verbatim>\<open>{type, title, docs}\<close> for the container template, where
  an entry of \<^verbatim>\<open>docs\<close> is \<^verbatim>\<open>undefined\<close>, \<^verbatim>\<open>{kind: 'source', code}\<close>, a doclet,
  \<^verbatim>\<open>{kind: 'mainpage', readme, longname}\<close> or \<^verbatim>\<open>{kind: 'globalobj'}\<close>, and
  \<^verbatim>\<open>{title, header, content, children}\<close> for the tutorial template.
\<close>

datatype page_doc =
    DocUndefined
  | DocSource string
  | DocDoclet symbol
  | DocMainpage "string option" string
  | DocGlobalobj

datatype render_data =
    Container string "string option" "page_doc list"
  | TutorialPage string string string "tutorial list"

record static_conf =
  include_paths :: "string list option"

record ('h, 'v) collaborators =
  htmlsafe :: "string \<Rightarrow> string"
  linkto :: "'h \<Rightarrow> string \<Rightarrow> string \<Rightarrow> string"
  getAttribs :: "doclet \<Rightarrow> string list"
  getAttribs_item :: "item \<Rightarrow> string list"
  createLink :: "'h \<Rightarrow> doclet \<Rightarrow> string \<times> 'h"
  registerLink :: "'h \<Rightarrow> string option \<Rightarrow> string \<Rightarrow> 'h"
  longnameToUrl :: "'h \<Rightarrow> (string \<times> string) list"
  getAncestorLinks :: "'h \<Rightarrow> doclet list \<Rightarrow> doclet \<Rightarrow> string list"
  getUniqueFilename :: "'h \<Rightarrow> string option \<Rightarrow> string \<times> 'h"
  resolveLinks :: "'h \<Rightarrow> string \<Rightarrow> string"
  tutorialToUrl :: "'h \<Rightarrow> string \<Rightarrow> string"
  find_longname :: "symbol list \<Rightarrow> string \<Rightarrow> symbol list"
  path_join :: "string \<Rightarrow> string \<Rightarrow> string"
  path_commonPrefix :: "string list \<Rightarrow> string"
  render :: "'v \<Rightarrow> 'h \<Rightarrow> string \<Rightarrow> render_data \<Rightarrow> string"
  readFileSync :: "string \<Rightarrow> string \<Rightarrow> string + string"
  toDir :: "string \<Rightarrow> string"
  ls :: "string \<Rightarrow> nat \<Rightarrow> string list"
  scan :: "static_conf \<Rightarrow> string list \<Rightarrow> nat \<Rightarrow> string list"
  OUTDIR :: string

section \<open>Signatures\<close>

definition needsSignature :: "doclet \<Rightarrow> bool" where
  "needsSignature d =
     (if kind d = ''function'' \<or> kind d = ''class'' then True
      else if kind d = ''typedef'' \<and>
              (case type d of
                 None \<Rightarrow> False
               | Some t \<Rightarrow> (case names t of None \<Rightarrow> False | Some ns \<Rightarrow> length ns \<noteq> 0))
           then list_ex (\<lambda>n. toLowerCase n = ''function'')
                  (case type d of Some t \<Rightarrow> (case names t of Some ns \<Rightarrow> ns | None \<Rightarrow> [])
                   | None \<Rightarrow> [])
      else False)"

definition addParamAttributes :: "item list \<Rightarrow> string list" where
  "addParamAttributes ps =
     map updateItemName
       (filter (\<lambda>p. case item_name p of
                       None \<Rightarrow> False
                     | Some n \<Rightarrow> n \<noteq> [] \<and> indexOf n CHR ''.'' = -1) ps)"

text \<open>\<open>buildItemTypeStrings\<close> reads only the \<^verbatim>\<open>type\<close> of its argument, a doclet or an item.\<close>

definition buildItemTypeStrings ::
    "('h, 'v) collaborators \<Rightarrow> 'h \<Rightarrow> type_expr option \<Rightarrow> string list" where
  "buildItemTypeStrings E h ty =
     (case ty of
        None \<Rightarrow> []
      | Some t \<Rightarrow>
          (case names t of
             None \<Rightarrow> []
           | Some ns \<Rightarrow> map (\<lambda>n. linkto E h n (htmlsafe E n)) ns))"

definition buildAttribsString :: "('h, 'v) collaborators \<Rightarrow> string list \<Rightarrow> string" where
  "buildAttribsString E as =
     (if as \<noteq> [] then htmlsafe E (''('' @ join '', '' as @ '') '') else [])"

definition addNonParamAttributes ::
    "('h, 'v) collaborators \<Rightarrow> 'h \<Rightarrow> item list \<Rightarrow> string list" where
  "addNonParamAttributes E h items =
     fold (\<lambda>it types. types @ buildItemTypeStrings E h (item_type it)) items []"

definition addSignatureParams :: "doclet \<Rightarrow> doclet" where
  "addSignatureParams f =
     (let ps = (case params f of Some ps \<Rightarrow> addParamAttributes ps | None \<Rightarrow> [])
      in f\<lparr>signature := Some (or_empty (signature f) @ ''('' @ join '', '' ps @ '')'')\<rparr>)"

definition addSignatureReturns :: "('h, 'v) collaborators \<Rightarrow> 'h \<Rightarrow> doclet \<Rightarrow> doclet" where
  "addSignatureReturns E h f =
     (let as = (case returns f of
                  None \<Rightarrow> []
                | Some rs \<Rightarrow>
                    fold (\<lambda>it as.
                            fold (\<lambda>a as. if indexOf as a = -1 then as @ [a] else as)
                              (getAttribs_item E it) as)
                      rs []);
          attribsString = (case returns f of None \<Rightarrow> [] | Some rs \<Rightarrow> buildAttribsString E as);
          returnTypes = (case returns f of None \<Rightarrow> [] | Some rs \<Rightarrow> addNonParamAttributes E h rs);
          returnTypesString =
            (if length returnTypes \<noteq> 0
             then '' &rarr; '' @ attribsString @ ''{'' @ join ''|'' returnTypes @ ''}''
             else [])
      in f\<lparr>signature :=
             Some (''<span class=\"signature\">'' @ or_empty (signature f) @ ''</span>'' @
                   ''<span class=\"type-signature\">'' @ returnTypesString @ ''</span>'')\<rparr>)"

definition addSignatureTypes :: "('h, 'v) collaborators \<Rightarrow> 'h \<Rightarrow> doclet \<Rightarrow> doclet" where
  "addSignatureTypes E h f =
     (let types = (case type f of Some t \<Rightarrow> buildItemTypeStrings E h (type f) | None \<Rightarrow> [])
      in f\<lparr>signature :=
             Some (or_empty (signature f) @ ''<span class=\"type-signature\">'' @
                   (if length types \<noteq> 0 then '' :'' @ join ''|'' types else []) @
                   ''</span>'')\<rparr>)"

definition addAttribs :: "('h, 'v) collaborators \<Rightarrow> doclet \<Rightarrow> doclet" where
  "addAttribs E f =
     (let attribsString = buildAttribsString E (getAttribs E f)
      in f\<lparr>attribs := Some (''<span class=\"type-signature\">'' @ attribsString @ ''</span>'')\<rparr>)"

section \<open>Links for see-tags\<close>

text \<open>\<^verbatim>\<open>/^(#.+)/.test(hash)\<close>: a hash sign and one more character of the same line.\<close>

definition is_hash_link :: "string \<Rightarrow> bool" where
  "is_hash_link hash =
     (case hash of
        c # d # r \<Rightarrow> c = CHR ''#'' \<and> \<not> is_line_end d
      | _ \<Rightarrow> False)"

text \<open>
  The leftmost match of \<^verbatim>\<open>/(#.+|$)/\<close>: a hash sign with the rest of its line when a
  character of the line follows it, else the empty text at the end. The result is the text
  before the match, the match and the text after it.
\<close>

fun find_hash :: "string \<Rightarrow> string \<times> string \<times> string" where
  "find_hash [] = ([], [], [])"
| "find_hash (c # cs) =
     (if c = CHR ''#'' \<and> (case cs of d # r \<Rightarrow> \<not> is_line_end d | [] \<Rightarrow> False)
      then ([], c # takeWhile (\<lambda>x. \<not> is_line_end x) cs, dropWhile (\<lambda>x. \<not> is_line_end x) cs)
      else (case find_hash cs of (pre, matched, post) \<Rightarrow> (c # pre, matched, post)))"

definition hashToLink ::
    "('h, 'v) collaborators \<Rightarrow> 'h \<Rightarrow> doclet \<Rightarrow> string \<Rightarrow> string \<times> 'h" where
  "hashToLink E h d hash =
     (if \<not> is_hash_link hash then (hash, h)
      else (case createLink E h d of
              (url, h') \<Rightarrow>
                (case find_hash url of
                   (pre, matched, post) \<Rightarrow>
                     (''<a href=\"'' @
                      (pre @ getSubstitution [matched] matched pre post hash @ post) @
                      ''\">'' @ hash @ ''</a>'', h'))))"

section \<open>Source files\<close>

text \<open>
  \<^verbatim>\<open>sourceFiles\<close> is an object keyed by path; its keys are kept in the order of their first
  assignment, which is the order of \<^verbatim>\<open>Object.keys\<close> for keys that are not array indices.
\<close>

record source_file =
  resolved :: string
  shortened :: "string option"

type_synonym source_files = "(string \<times> source_file) list"

fun assign :: "'k \<Rightarrow> 'a \<Rightarrow> ('k \<times> 'a) list \<Rightarrow> ('k \<times> 'a) list" where
  "assign k v [] = [(k, v)]"
| "assign k v ((k', v') # al) = (if k' = k then (k, v) # al else (k', v') # assign k v al)"

definition shortenPaths :: "source_files \<Rightarrow> string \<Rightarrow> source_files" where
  "shortenPaths files commonPrefix =
     map (\<lambda>(file, f).
            (file, f\<lparr>shortened := Some (forward_slashes (replace (resolved f) commonPrefix []))\<rparr>))
       files"

definition getPathFromDoclet :: "('h, 'v) collaborators \<Rightarrow> doclet \<Rightarrow> string option" where
  "getPathFromDoclet E d =
     (case meta d of
        None \<Rightarrow> None
      | Some m \<Rightarrow>
          (if (case path m of Some p \<Rightarrow> p \<noteq> [] \<and> p \<noteq> ''null'' | None \<Rightarrow> False)
           then Some (path_join E (or_empty (path m)) (filename m))
           else Some (filename m)))"

section \<open>The two passes over the doclets\<close>

text \<open>The first \<^verbatim>\<open>data().each\<close> of \<^verbatim>\<open>publish\<close>: one doclet, in the parts of its body.\<close>

record 'h build_state =
  sourceFiles :: source_files
  sourceFilePaths :: "string list"
  helper :: 'h

fun format_examples :: "example_item list \<Rightarrow> error + example_item list" where
  "format_examples [] = Inr []"
| "format_examples (ExText t # xs) =
     (case format_examples xs of
        Inl e \<Rightarrow> Inl e
      | Inr ys \<Rightarrow> Inr (ExFormatted (formatExample t) # ys))"
| "format_examples (ExFormatted r # xs) = Inl TypeError"

fun link_see ::
    "('h, 'v) collaborators \<Rightarrow> doclet \<Rightarrow> string list \<Rightarrow> 'h \<Rightarrow> string list \<times> 'h" where
  "link_see E d [] h = ([], h)"
| "link_see E d (x # xs) h =
     (case hashToLink E h d x of
        (y, h') \<Rightarrow> (case link_see E d xs h' of (ys, h'') \<Rightarrow> (y # ys, h'')))"

text \<open>\<^verbatim>\<open>if (doclet.examples) { ... }\<close>\<close>

definition formatExamples :: "doclet \<Rightarrow> error + doclet" where
  "formatExamples d =
     (case examples d of
        None \<Rightarrow> Inr d
      | Some xs \<Rightarrow>
          (case format_examples xs of
             Inl e \<Rightarrow> Inl e
           | Inr ys \<Rightarrow> Inr (d\<lparr>examples := Some ys\<rparr>)))"

text \<open>\<^verbatim>\<open>if (doclet.see) { ... }\<close>\<close>

definition linkSee :: "('h, 'v) collaborators \<Rightarrow> doclet \<Rightarrow> 'h \<Rightarrow> doclet \<times> 'h" where
  "linkSee E d h =
     (case see d of
        None \<Rightarrow> (d, h)
      | Some xs \<Rightarrow> (case link_see E d xs h of (ys, h') \<Rightarrow> (d\<lparr>see := Some ys\<rparr>, h')))"

text \<open>\<^verbatim>\<open>if (doclet.meta) { ... }\<close>; \<open>getPathFromDoclet\<close> gives a path when there is a \<open>meta\<close>.\<close>

definition addSourceFile ::
    "('h, 'v) collaborators \<Rightarrow> doclet \<Rightarrow> 'h build_state \<Rightarrow> 'h build_state" where
  "addSourceFile E d st =
     (case meta d of
        None \<Rightarrow> st
      | Some m \<Rightarrow>
          (case getPathFromDoclet E d of
             None \<Rightarrow> st
           | Some sourcePath \<Rightarrow>
               st\<lparr>sourceFiles :=
                    assign sourcePath \<lparr>resolved = sourcePath, shortened = None\<rparr>
                      (sourceFiles st),
                  sourceFilePaths :=
                    (if indexOf (sourceFilePaths st) sourcePath = -1
                     then sourceFilePaths st @ [sourcePath]
                     else sourceFilePaths st)\<rparr>))"

definition buildSourceFile ::
    "('h, 'v) collaborators \<Rightarrow> doclet \<Rightarrow> 'h build_state \<Rightarrow> error + doclet \<times> 'h build_state"
  where
  "buildSourceFile E d st =
     (case formatExamples (d\<lparr>attribs := Some []\<rparr>) of
        Inl e \<Rightarrow> Inl e
      | Inr d \<Rightarrow>
          (case linkSee E d (helper st) of
             (d, h') \<Rightarrow> Inr (d, addSourceFile E d (st\<lparr>helper := h'\<rparr>))))"

fun buildSourceFiles ::
    "('h, 'v) collaborators \<Rightarrow> doclet list \<Rightarrow> 'h build_state \<Rightarrow>
       error + doclet list \<times> 'h build_state" where
  "buildSourceFiles E [] st = Inr ([], st)"
| "buildSourceFiles E (d # ds) st =
     (case buildSourceFile E d st of
        Inl e \<Rightarrow> Inl e
      | Inr (d', st') \<Rightarrow>
          (case buildSourceFiles E ds st' of
             Inl e \<Rightarrow> Inl e
           | Inr (ds', st'') \<Rightarrow> Inr (d' # ds', st'')))"

text \<open>
  The second \<^verbatim>\<open>data().each\<close> of \<^verbatim>\<open>publish\<close>: one doclet, in the three parts of its body.
  \<open>data_with\<close> gives the whole collection for a state of this doclet, for
  \<^verbatim>\<open>helper.getAncestorLinks(data, doclet)\<close>.
\<close>

text \<open>\<^verbatim>\<open>// set shortened path\<close>\<close>

definition setShortenedPath ::
    "('h, 'v) collaborators \<Rightarrow> source_files \<Rightarrow> doclet \<Rightarrow> error + doclet" where
  "setShortenedPath E files d =
     (case meta d of
        None \<Rightarrow> Inr d
      | Some m \<Rightarrow>
          (case getPathFromDoclet E d of
             None \<Rightarrow> Inr d
           | Some p \<Rightarrow>
               (case map_of files p of
                  None \<Rightarrow> Inl TypeError
                | Some f \<Rightarrow>
                    (if (case shortened f of Some s \<Rightarrow> s \<noteq> [] | None \<Rightarrow> False)
                     then Inr (d\<lparr>meta := Some (m\<lparr>shortpath := shortened f\<rparr>)\<rparr>)
                     else Inr d))))"

text \<open>\<^verbatim>\<open>// set doclet id\<close>\<close>

definition setDocletId :: "('h, 'v) collaborators \<Rightarrow> 'h \<Rightarrow> doclet \<Rightarrow> error + doclet" where
  "setDocletId E h d =
     (case map_of (longnameToUrl E h) (longname d) of
        None \<Rightarrow> Inl TypeError
      | Some url \<Rightarrow>
          (if indexOf url CHR ''#'' > -1
           then Inr (d\<lparr>doclet_id := Some (after_last_hash url)\<rparr>)
           else Inr (d\<lparr>doclet_id := Some (name d)\<rparr>)))"

text \<open>\<^verbatim>\<open>// add signature parameters, returns and attriutes\<close>, and the rest of the body.\<close>

definition addSignatures ::
    "('h, 'v) collaborators \<Rightarrow> 'h \<Rightarrow> (doclet \<Rightarrow> doclet list) \<Rightarrow> doclet \<Rightarrow> doclet" where
  "addSignatures E h data_with d =
     (let d = (if needsSignature d
               then addAttribs E (addSignatureReturns E h (addSignatureParams d))
               else d);
          d = d\<lparr>ancestors := Some (getAncestorLinks E h (data_with d) d)\<rparr>;
          d = (if kind d = ''member'' then addAttribs E (addSignatureTypes E h d) else d);
          d = (if kind d = ''constant''
               then (addAttribs E (addSignatureTypes E h d))\<lparr>kind := ''member''\<rparr>
               else d)
      in d)"

definition setDocletInformation ::
    "('h, 'v) collaborators \<Rightarrow> source_files \<Rightarrow> (doclet \<Rightarrow> doclet list) \<Rightarrow> doclet \<Rightarrow> 'h \<Rightarrow>
       error + doclet \<times> 'h" where
  "setDocletInformation E files data_with d h =
     (case createLink E h d of
        (link, h) \<Rightarrow>
          (let h = registerLink E h (Some (longname d)) link
           in case setShortenedPath E files d of
                Inl e \<Rightarrow> Inl e
              | Inr d \<Rightarrow>
                  (case setDocletId E h d of
                     Inl e \<Rightarrow> Inl e
                   | Inr d \<Rightarrow> Inr (addSignatures E h data_with d, h))))"

fun setDocletInformation_each ::
    "('h, 'v) collaborators \<Rightarrow> source_files \<Rightarrow> doclet list \<Rightarrow> doclet list \<Rightarrow> 'h \<Rightarrow>
       error + doclet list \<times> 'h" where
  "setDocletInformation_each E files done [] h = Inr (done, h)"
| "setDocletInformation_each E files done (d # ds) h =
     (case setDocletInformation E files (\<lambda>d'. done @ d' # ds) d h of
        Inl e \<Rightarrow> Inl e
      | Inr (d', h') \<Rightarrow> setDocletInformation_each E files (done @ [d']) ds h')"

text \<open>
  The two passes as \<^verbatim>\<open>publish\<close> runs them, with the paths shortened in between; the
  copying of static files between them does not touch the doclets.
\<close>

definition enrichDoclets ::
    "('h, 'v) collaborators \<Rightarrow> doclet list \<Rightarrow> 'h \<Rightarrow> error + doclet list \<times> 'h" where
  "enrichDoclets E ds h =
     (case buildSourceFiles E ds \<lparr>sourceFiles = [], sourceFilePaths = [], helper = h\<rparr> of
        Inl e \<Rightarrow> Inl e
      | Inr (ds1, st) \<Rightarrow>
          (let files = (if length (sourceFilePaths st) \<noteq> 0
                        then shortenPaths (sourceFiles st)
                               (path_commonPrefix E (sourceFilePaths st))
                        else sourceFiles st)
           in setDocletInformation_each E files [] ds1 (helper st)))"

section \<open>Common path prefix\<close>

text \<open>
  Modelled from the spec: \<^verbatim>\<open>path.commonPrefix\<close> belongs to the path module of the host and
  is not in this repository. Section 4.3 asks for the longest common path prefix of the
  source paths, and section 8 gives \<^verbatim>\<open>/a/b/\<close> for \<^verbatim>\<open>/a/b/x.js\<close> and \<^verbatim>\<open>/a/b/c/y.js\<close>: the
  directories of the paths are split at the separator, the longest run of segments that
  all of them start with is joined again, and a separator closes it.
\<close>

fun split_path :: "string \<Rightarrow> string list" where
  "split_path [] = [[]]"
| "split_path (c # cs) =
     (if c = CHR ''/'' then [] # split_path cs
      else (case split_path cs of seg # segs \<Rightarrow> (c # seg) # segs | [] \<Rightarrow> [[c]]))"

fun common_segments :: "string list \<Rightarrow> string list \<Rightarrow> string list" where
  "common_segments (x # xs) (y # ys) = (if x = y then x # common_segments xs ys else [])"
| "common_segments xs ys = []"

definition commonPrefix :: "string list \<Rightarrow> string" where
  "commonPrefix paths =
     (case map (\<lambda>p. butlast (split_path p)) paths of
        [] \<Rightarrow> []
      | d # ds \<Rightarrow>
          (case fold (\<lambda>q acc. common_segments acc q) ds d of
             [] \<Rightarrow> []
           | segs \<Rightarrow> join ''/'' (segs @ [[]])))"

section \<open>Pages\<close>

text \<open>
  What the run leaves behind: the state of the template helper, the files written (each
  with the data it was rendered from), the errors logged and the calls to the file system.
\<close>

record page =
  out_path :: string
  out_html :: string
  out_encoding :: string
  out_data :: render_data

datatype fs_op = MkPath string | CopyFile string string

record 'h world =
  hstate :: 'h
  pages :: "page list"
  logged :: "string list"
  fs_ops :: "fs_op list"

text \<open>The last argument of \<open>generate\<close> is \<^verbatim>\<open>false\<close> or left out.\<close>

definition generate ::
    "('h, 'v) collaborators \<Rightarrow> 'v \<Rightarrow> string \<Rightarrow> string option \<Rightarrow> page_doc list \<Rightarrow> string \<Rightarrow>
       bool option \<Rightarrow> 'h world \<Rightarrow> 'h world" where
  "generate E view ty ttl docs fname resolve w =
     (let docData = Container ty ttl docs;
          outpath = path_join E (OUTDIR E) fname;
          html = render E view (hstate w) ''container.tmpl'' docData;
          html = (if resolve \<noteq> Some False then resolveLinks E (hstate w) html else html)
      in w\<lparr>pages := pages w @
              [\<lparr>out_path = outpath, out_html = html, out_encoding = ''utf8'',
                out_data = docData\<rparr>]\<rparr>)"

text \<open>The body of the loop of \<open>generateSourceFiles\<close>, for one key and its entry.\<close>

definition generateSourceFile ::
    "('h, 'v) collaborators \<Rightarrow> 'v \<Rightarrow> string \<Rightarrow> string \<times> source_file \<Rightarrow> 'h world \<Rightarrow> 'h world"
  where
  "generateSourceFile E view encoding entry w =
     (case entry of
        (file, f) \<Rightarrow>
          (case getUniqueFilename E (hstate w) (shortened f) of
             (sourceOutfile, h) \<Rightarrow>
               (let w = w\<lparr>hstate := registerLink E h (shortened f) sourceOutfile\<rparr>;
                    (source, w) =
                      (case readFileSync E (resolved f) encoding of
                         Inr text \<Rightarrow> (DocSource (htmlsafe E text), w)
                       | Inl message \<Rightarrow>
                           (DocUndefined,
                            w\<lparr>logged := logged w @
                                 [''Error while generating source file '' @ file @ '': '' @
                                  message]\<rparr>))
                in generate E view ''Source'' (shortened f) [source] sourceOutfile
                     (Some False) w)))"

definition generateSourceFiles ::
    "('h, 'v) collaborators \<Rightarrow> 'v \<Rightarrow> source_files \<Rightarrow> string option \<Rightarrow> 'h world \<Rightarrow> 'h world"
  where
  "generateSourceFiles E view files encoding w =
     (let encoding = (case encoding of Some e \<Rightarrow> if e \<noteq> [] then e else ''utf8''
                      | None \<Rightarrow> ''utf8'')
      in fold (generateSourceFile E view encoding) files w)"

definition generateMember ::
    "('h, 'v) collaborators \<Rightarrow> 'v \<Rightarrow> string \<Rightarrow> symbol list \<Rightarrow> string \<Rightarrow> 'h world \<Rightarrow>
       error + 'h world" where
  "generateMember E view ttl dat ln w =
     (case find_longname E dat ln of
        [] \<Rightarrow> Inr w
      | m # ms \<Rightarrow>
          (case map_of (longnameToUrl E (hstate w)) ln of
             None \<Rightarrow> Inl TypeError
           | Some url \<Rightarrow>
               Inr (generate E view ttl (Some (name (props m))) (map DocDoclet (m # ms)) url
                      None w)))"

definition generateTutorial ::
    "('h, 'v) collaborators \<Rightarrow> 'v \<Rightarrow> string \<Rightarrow> tutorial \<Rightarrow> string \<Rightarrow> 'h world \<Rightarrow> 'h world"
  where
  "generateTutorial E view ttl tut fname w =
     (let tutorialData = TutorialPage ttl (title tut) (parse tut) (children tut);
          tutorialPath = path_join E (OUTDIR E) fname;
          html = render E view (hstate w) ''tutorial.tmpl'' tutorialData;
          html = resolveLinks E (hstate w) html
      in w\<lparr>pages := pages w @
              [\<lparr>out_path = tutorialPath, out_html = html, out_encoding = ''utf8'',
                out_data = tutorialData\<rparr>]\<rparr>)"

fun saveChildren :: "('h, 'v) collaborators \<Rightarrow> 'v \<Rightarrow> tutorial \<Rightarrow> 'h world \<Rightarrow> 'h world"
  and saveChildren_each ::
    "('h, 'v) collaborators \<Rightarrow> 'v \<Rightarrow> tutorial list \<Rightarrow> 'h world \<Rightarrow> 'h world" where
  "saveChildren E view (Tutorial t n c chs) w = saveChildren_each E view chs w"
| "saveChildren_each E view [] w = w"
| "saveChildren_each E view (child # rest) w =
     saveChildren_each E view rest
       (saveChildren E view child
          (generateTutorial E view (''Tutorial: '' @ title child) child
             (tutorialToUrl E (hstate w) (tutorial_name child)) w))"

text \<open>The result of \<^verbatim>\<open>helper.getMembers(data)\<close>, as far as \<^verbatim>\<open>publish\<close> reads it.\<close>

record members =
  m_modules :: "symbol list"
  m_classes :: "symbol list"
  m_namespaces :: "symbol list"
  m_mixins :: "symbol list"
  m_externals :: "symbol list"
  m_interfaces :: "symbol list"
  m_globals :: "symbol list"

fun generateMembers ::
    "('h, 'v) collaborators \<Rightarrow> 'v \<Rightarrow> (string \<times> symbol list) list \<Rightarrow> string \<Rightarrow> 'h world \<Rightarrow>
       error + 'h world" where
  "generateMembers E view [] ln w = Inr w"
| "generateMembers E view ((ttl, dat) # rest) ln w =
     (case generateMember E view ttl dat ln w of
        Inl e \<Rightarrow> Inl e
      | Inr w' \<Rightarrow> generateMembers E view rest ln w')"

fun generateMembers_each ::
    "('h, 'v) collaborators \<Rightarrow> 'v \<Rightarrow> members \<Rightarrow> string list \<Rightarrow> 'h world \<Rightarrow> error + 'h world"
  where
  "generateMembers_each E view mem [] w = Inr w"
| "generateMembers_each E view mem (ln # lns) w =
     (case generateMembers E view
             [(''Module'', m_modules mem), (''Class'', m_classes mem),
              (''Namespace'', m_namespaces mem), (''Mixin'', m_mixins mem),
              (''External'', m_externals mem), (''Interface'', m_interfaces mem)] ln w of
        Inl e \<Rightarrow> Inl e
      | Inr w' \<Rightarrow> generateMembers_each E view mem lns w')"

text \<open>The part \<^verbatim>\<open>// Generate HTML\<close> of \<^verbatim>\<open>publish\<close>.\<close>

definition generateHtml ::
    "('h, 'v) collaborators \<Rightarrow> 'v \<Rightarrow> page_doc list \<Rightarrow> string \<Rightarrow> string \<Rightarrow> members \<Rightarrow>
       tutorial \<Rightarrow> 'h world \<Rightarrow> error + 'h world" where
  "generateHtml E view docs indexUrl globalUrl mem tutorials w =
     (let w = generate E view [] (Some ''Home'') docs indexUrl None w;
          w = (if length (m_globals mem) \<noteq> 0
               then generate E view [] (Some ''Global'') [DocGlobalobj] globalUrl None w
               else w)
      in case generateMembers_each E view mem (map fst (longnameToUrl E (hstate w))) w of
           Inl e \<Rightarrow> Inl e
         | Inr w \<Rightarrow> Inr (saveChildren E view tutorials w))"

section \<open>Static files\<close>

text \<open>The part \<^verbatim>\<open>// Copy template static files to OUTDIR\<close> of \<^verbatim>\<open>publish\<close>.\<close>

definition copyStaticFiles :: "('h, 'v) collaborators \<Rightarrow> string \<Rightarrow> 'h world \<Rightarrow> 'h world" where
  "copyStaticFiles E normPath w =
     (let fromDir = path_join E normPath ''static'';
          staticFiles = ls E fromDir 3
      in fold (\<lambda>fileName w.
                 let toPath = replace fileName fromDir (OUTDIR E);
                     toDir = toDir E toPath
                 in w\<lparr>fs_ops := fs_ops w @ [MkPath toDir, CopyFile fileName toPath]\<rparr>)
           staticFiles w)"

text \<open>
  The part \<^verbatim>\<open>// Copy user-specified static files to OUTDIR\<close> of \<^verbatim>\<open>publish\<close>. The inner
  function names its parameter \<^verbatim>\<open>filename\<close> (\<open>filename'\<close> here) and copies \<^verbatim>\<open>fileName\<close>, which no enclosing
  scope binds: the name is looked up in the global object, \<open>global_fileName\<close> here, and
  reading it throws a ReferenceError when the global object has no such property.
\<close>

fun copyUserFiles ::
    "('h, 'v) collaborators \<Rightarrow> string option \<Rightarrow> string \<Rightarrow> string list \<Rightarrow> 'h world \<Rightarrow>
       error + 'h world" where
  "copyUserFiles E global_fileName sourcePath [] w = Inr w"
| "copyUserFiles E global_fileName sourcePath (filename' # rest) w =
     (let destDir = toDir E (replace filename' sourcePath (OUTDIR E));
          w = w\<lparr>fs_ops := fs_ops w @ [MkPath destDir]\<rparr>
      in case global_fileName of
           None \<Rightarrow> Inl ReferenceError
         | Some fileName \<Rightarrow>
             copyUserFiles E global_fileName sourcePath rest
               (w\<lparr>fs_ops := fs_ops w @ [CopyFile fileName destDir]\<rparr>))"

fun copyUserPaths ::
    "('h, 'v) collaborators \<Rightarrow> string option \<Rightarrow> static_conf \<Rightarrow> string list \<Rightarrow> 'h world \<Rightarrow>
       error + 'h world" where
  "copyUserPaths E global_fileName conf [] w = Inr w"
| "copyUserPaths E global_fileName conf (p # ps) w =
     (let files = scan E conf [p] 10;
          sourcePath = toDir E p
      in case copyUserFiles E global_fileName sourcePath files w of
           Inl e \<Rightarrow> Inl e
         | Inr w' \<Rightarrow> copyUserPaths E global_fileName conf ps w')"

definition copyUserStaticFiles ::
    "('h, 'v) collaborators \<Rightarrow> string option \<Rightarrow> static_conf option \<Rightarrow> 'h world \<Rightarrow>
       error + 'h world" where
  "copyUserStaticFiles E global_fileName staticFiles w =
     (case staticFiles of
        None \<Rightarrow> Inr w
      | Some conf \<Rightarrow>
          (let filePaths = (case include_paths conf of Some ps \<Rightarrow> ps | None \<Rightarrow> [])
           in copyUserPaths E global_fileName conf filePaths w))"

section \<open>Module symbols\<close>

text \<open>
  The doclets are objects shared between the collection, the array \<^verbatim>\<open>doclets\<close> and the
  array \<^verbatim>\<open>modules\<close>: a store maps references to them, and the arrays hold references.
  \<open>doop\<close>, the copy function of the host, gives a new object with the same properties; the
  copies are reachable from the \<^verbatim>\<open>modules\<close> list of their module only, and are kept
  there as values. Long names are taken not to be names of properties that every object
  inherits; \<^verbatim>\<open>publish\<close> passes doclets whose long name starts with \<^verbatim>\<open>module:\<close>.
\<close>

type_synonym ref = nat

type_synonym store = "ref \<Rightarrow> symbol"

definition doop :: "symbol \<Rightarrow> symbol" where
  "doop s = s"

definition build_lookup :: "store \<Rightarrow> ref list \<Rightarrow> (string \<times> ref list) list" where
  "build_lookup st doclets =
     fold (\<lambda>r symbols.
             let ln = longname (props (st r))
             in assign ln ((case map_of symbols ln of Some rs \<Rightarrow> rs | None \<Rightarrow> []) @ [r])
                  symbols)
       doclets []"

text \<open>The two functions that \<open>attachModuleSymbols\<close> filters and maps with.\<close>

definition shown_symbol :: "symbol \<Rightarrow> bool" where
  "shown_symbol symbol =
     ((case description (props symbol) of Some t \<Rightarrow> t \<noteq> [] | None \<Rightarrow> False) \<or>
      kind (props symbol) = ''class'')"

definition display_copy :: "symbol \<Rightarrow> symbol" where
  "display_copy symbol0 =
     (let symbol = doop symbol0
      in if kind (props symbol) = ''class'' \<or> kind (props symbol) = ''function''
         then Symbol ((props symbol)
                \<lparr>name := replace (name (props symbol)) ''module:'' ''(require(\"'' @ ''\"))''\<rparr>)
                (modules symbol)
         else symbol)"

text \<open>The function that \<open>attachModuleSymbols\<close> maps the modules with.\<close>

definition attach ::
    "(string \<times> ref list) list \<Rightarrow> ref \<Rightarrow> store \<Rightarrow> store" where
  "attach symbols m st =
     (case map_of symbols (longname (props (st m))) of
        None \<Rightarrow> st
      | Some rs \<Rightarrow>
          st(m := Symbol (props (st m))
             (Some (map (\<lambda>r. display_copy (st r)) (filter (\<lambda>r. shown_symbol (st r)) rs)))))"

definition attachModuleSymbols :: "store \<Rightarrow> ref list \<Rightarrow> ref list \<Rightarrow> store" where
  "attachModuleSymbols st doclets mods = fold (attach (build_lookup st doclets)) mods st"

section \<open>Notions for stating the properties\<close>

text \<open>The two spans that \<open>addSignatureReturns\<close> wraps a signature and its return types in.\<close>

definition signature_spans :: "string \<Rightarrow> string \<Rightarrow> string" where
  "signature_spans b r =
     ''<span class=\"signature\">'' @ b @ ''</span>'' @
     ''<span class=\"type-signature\">'' @ r @ ''</span>''"

text \<open>A \<^verbatim>\<open>meta\<close> that is the same as before, or the same with a non-empty \<open>shortpath\<close>.\<close>

definition short_meta :: "meta option \<Rightarrow> meta option \<Rightarrow> bool" where
  "short_meta m m' =
     (m' = m \<or> (\<exists>x s. m = Some x \<and> s \<noteq> [] \<and> m' = Some (x\<lparr>shortpath := Some s\<rparr>)))"

text \<open>Every file written so far was written as UTF-8.\<close>

definition utf8_only :: "'h world \<Rightarrow> bool" where
  "utf8_only w = list_all (\<lambda>p. out_encoding p = ''utf8'') (pages w)"

section \<open>A host for concrete runs\<close>

text \<open>
  Collaborators simple enough to evaluate the template on concrete inputs: the state of
  the helper is the link registry alone, and one source file cannot be read. With them, a
  doclet that has a kind, a name and a long name only, and a run that has done nothing yet.
\<close>

definition bare_doclet :: "string \<Rightarrow> string \<Rightarrow> string \<Rightarrow> doclet" where
  "bare_doclet k n ln =
     \<lparr>kind = k, name = n, longname = ln, description = None, examples = None, see = None,
      type = None, params = None, returns = None, meta = None, attribs = None,
      signature = None, doclet_id = None, ancestors = None\<rparr>"

definition empty_world :: "(string \<times> string) list world" where
  "empty_world = \<lparr>hstate = [], pages = [], logged = [], fs_ops = []\<rparr>"

definition plain_host :: "((string \<times> string) list, unit) collaborators" where
  "plain_host =
     \<lparr>htmlsafe = (\<lambda>s. concat (map (\<lambda>c. if c = CHR ''<'' then ''&lt;'' else [c]) s)),
      linkto = (\<lambda>h ln text. case map_of h ln of
                               Some url \<Rightarrow> ''<a href=\"'' @ url @ ''\">'' @ text @ ''</a>''
                             | None \<Rightarrow> text),
      getAttribs = (\<lambda>d. []),
      getAttribs_item = (\<lambda>it. []),
      createLink = (\<lambda>h d. (longname d @ ''.html'', h)),
      registerLink = (\<lambda>h k url. case k of Some k \<Rightarrow> assign k url h | None \<Rightarrow> h),
      longnameToUrl = (\<lambda>h. h),
      getAncestorLinks = (\<lambda>h ds d. []),
      getUniqueFilename = (\<lambda>h s. (or_empty s @ ''.html'', h)),
      resolveLinks = (\<lambda>h s. s),
      tutorialToUrl = (\<lambda>h n. ''tutorial-'' @ n @ ''.html''),
      find_longname = (\<lambda>ds ln. filter (\<lambda>d. longname (props d) = ln) ds),
      path_join = (\<lambda>a b. a @ ''/'' @ b),
      path_commonPrefix = commonPrefix,
      render = (\<lambda>v h t dat.
                  t @ '':'' @
                  (case dat of
                     Container ty ttl docs \<Rightarrow>
                       ty @ '':'' @ or_empty ttl @ '':'' @
                       concat (map (\<lambda>d. case d of DocSource c \<Rightarrow> c | _ \<Rightarrow> ''-'') docs)
                   | TutorialPage ttl header c chs \<Rightarrow> ttl @ '':'' @ c)),
      readFileSync = (\<lambda>p enc. if p = ''/src/gone.js'' then Inl ''ENOENT'' else Inr (''a<b'')),
      toDir = (\<lambda>p. if CHR ''.'' \<in> set (takeWhile (\<lambda>c. c \<noteq> CHR ''/'') (rev p))
                  then rev (drop 1 (dropWhile (\<lambda>c. c \<noteq> CHR ''/'') (rev p))) else p),
      ls = (\<lambda>d n. [d @ ''/styles/main.css'']),
      scan = (\<lambda>conf ps n. concat (map (\<lambda>p. [p @ ''/a.png'', p @ ''/b.png'']) ps)),
      OUTDIR = ''out''\<rparr>"

section \<open>Verified properties: parameter names\<close>

text \<open>
  C10. \<open>updateItemName\<close> renders the nullability marker three ways: a \<open>nullable\<close> that
  is exactly \<open>true\<close> appends a signature-attributes span holding \<open>nullable\<close>, one that is
  exactly \<open>false\<close> appends one holding \<open>non-null\<close>, and an absent one or any other value
  appends nothing. Before that, a truthy \<open>variable\<close> prefixes the name with the ellipsis
  entity and a truthy \<open>optional\<close> wraps the result in square brackets inside an
  optional-param span.
\<close>

theorem updateItemName_markers:
  "updateItemName it =
     (let base = (if truthy (variable it) then ''&hellip;'' else []) @ or_empty (item_name it);
          shown = (if truthy (optional it)
                   then ''<span class=\"optional-param\">['' @ base @ '']</span>'' else base)
      in shown @
         (if nullable it = JBool True
            then ''<span class=\"signature-attributes\">nullable</span>''
          else if nullable it = JBool False
            then ''<span class=\"signature-attributes\">non-null</span>''
          else []))"
  by (simp add: updateItemName_def getSignatureAttributes_def splice1_def Let_def)

theorem updateItemName_markers_witness:
  "updateItemName \<lparr>item_name = Some ''x'', optional = JBool True, nullable = JBool False,
       variable = JBool True, item_type = None\<rparr> =
     ''<span class=\"optional-param\">[&hellip;x]</span><span class=\"signature-attributes\">non-null</span>''
   \<and> updateItemName \<lparr>item_name = Some ''x'', optional = JUndefined, nullable = JStr ''yes'',
       variable = JUndefined, item_type = None\<rparr> = ''x''
   \<and> updateItemName \<lparr>item_name = None, optional = JUndefined, nullable = JBool True,
       variable = JUndefined, item_type = None\<rparr> =
     ''<span class=\"signature-attributes\">nullable</span>''"
  using updateItemName_markers
    [of "\<lparr>item_name = Some ''x'', optional = JBool True, nullable = JBool False,
       variable = JBool True, item_type = None\<rparr>"]
    updateItemName_markers
    [of "\<lparr>item_name = Some ''x'', optional = JUndefined, nullable = JStr ''yes'',
       variable = JUndefined, item_type = None\<rparr>"]
    updateItemName_markers
    [of "\<lparr>item_name = None, optional = JUndefined, nullable = JBool True,
       variable = JUndefined, item_type = None\<rparr>"]
  by (simp add: or_empty_def)


section \<open>Verified properties: example captions\<close>

lemma line_end_is_space: "is_line_end c \<Longrightarrow> is_space c"
  by (auto simp: is_line_end_def is_space_def)

lemma match_tail_no_break:
  "(\<forall>c\<in>set (takeWhile is_space s). \<not> is_line_end c) \<Longrightarrow> match_tail s = None"
  by (induction s) (auto dest: line_end_is_space)

lemma match_tail_gap:
  assumes "\<forall>c\<in>set gap. is_space c" "is_line_end nl" "body \<noteq> []"
    and "\<forall>c\<in>set (takeWhile is_space body). \<not> is_line_end c"
  shows "match_tail (gap @ nl # body) = Some (gap @ [nl], body)"
  using assms(1)
proof (induction gap)
  case Nil
  then show ?case using assms(2-4) by (simp add: match_tail_no_break line_end_is_space)
next
  case (Cons c gap)
  then show ?case by simp
qed

lemma canon_tag_length:
  "map canonicalize t = map canonicalize lit \<Longrightarrow> length t = length lit"
  by (metis length_map)

lemma starts_with_ci_tag:
  "map canonicalize t = map canonicalize lit \<Longrightarrow> starts_with_ci (t @ rest) lit"
  by (frule canon_tag_length) (simp add: starts_with_ci_def)

lemma drop_tag:
  "map canonicalize t = map canonicalize lit \<Longrightarrow> drop (length lit) (t @ rest) = rest"
  by (frule canon_tag_length) simp

lemma no_overlap_lit:
  assumes s: "s \<noteq> []" and n: "\<not> starts_with_ci s lit"
    and t: "map canonicalize ctag = map canonicalize lit"
    and h: "lit \<noteq> []" "canonicalize (hd lit) \<notin> set (tl (map canonicalize lit))"
  shows "\<not> starts_with_ci (s @ ctag @ rest) lit"
proof
  assume m: "starts_with_ci (s @ ctag @ rest) lit"
  let ?P = "map canonicalize lit"
  have lc: "length ctag = length lit" by (rule canon_tag_length [OF t])
  have eq: "map canonicalize (take (length lit) (s @ ctag @ rest)) = ?P"
    using m unfolding starts_with_ci_def by (rule conjunct2)
  show False
  proof (cases "length lit \<le> length s")
    case True
    then have "take (length lit) (s @ ctag @ rest) = take (length lit) s" by simp
    with eq True n show False unfolding starts_with_ci_def by simp
  next
    case False
    define m where "m = length s"
    have m: "0 < m" "m < length lit" using s False by (auto simp: m_def)
    have "m < length (take (length lit) (s @ ctag @ rest))"
      using m lc by (simp add: m_def)
    then have "(map canonicalize (take (length lit) (s @ ctag @ rest))) ! m =
        canonicalize (take (length lit) (s @ ctag @ rest) ! m)"
      by (rule nth_map)
    also have "take (length lit) (s @ ctag @ rest) ! m = (s @ ctag @ rest) ! m"
      using m(2) by (rule nth_take)
    also have "(s @ ctag @ rest) ! m = ctag ! 0"
      using lc h by (simp add: m_def nth_append)
    also have "canonicalize (ctag ! 0) = map canonicalize ctag ! 0"
      using lc h by simp
    also have "\<dots> = canonicalize (hd lit)" unfolding t using h by (simp add: hd_conv_nth)
    finally have "?P ! m = canonicalize (hd lit)" using eq by simp
    moreover have "?P ! m \<in> set (tl ?P)"
    proof -
      have "tl ?P ! (m - 1) = ?P ! m" using m by (simp add: nth_tl)
      moreover have "m - 1 < length (tl ?P)" using m by simp
      ultimately show ?thesis by (metis nth_mem)
    qed
    ultimately show False using h by simp
  qed
qed

lemma no_overlap:
  assumes "s \<noteq> []" "\<not> starts_with_ci s ''</caption>''"
    and "map canonicalize ctag = map canonicalize ''</caption>''"
  shows "\<not> starts_with_ci (s @ ctag @ rest) ''</caption>''"
  using assms by (rule no_overlap_lit) (simp_all add: canonicalize_def)

lemma match_lazy_inner:
  assumes t: "map canonicalize ctag = map canonicalize ''</caption>''"
    and r: "match_tail rest = Some (g2, g3)"
  shows "\<not> contains_ci s ''</caption>'' \<Longrightarrow> match_lazy (s @ ctag @ rest) = Some (s, g2, g3)"
proof (induction s)
  case Nil
  have lc: "length ctag = 10" using canon_tag_length [OF t] by simp
  then obtain c cs where c: "ctag = c # cs" by (cases ctag) auto
  have A: "starts_with_ci (c # cs @ rest) ''</caption>''"
    using starts_with_ci_tag [OF t, of rest] by (simp only: c append_Cons)
  have B: "drop (length ''</caption>'') (c # cs @ rest) = rest"
    using drop_tag [OF t, of rest] by (simp only: c append_Cons)
  show ?case
    by (simp only: append_Nil c append_Cons match_lazy.simps A B if_True r option.case prod.case)
next
  case (Cons x s)
  then have a: "\<not> starts_with_ci (x # s) ''</caption>''" and b: "\<not> contains_ci s ''</caption>''"
    by simp_all
  have "\<not> starts_with_ci ((x # s) @ ctag @ rest) ''</caption>''"
    by (rule no_overlap [OF _ a t]) simp
  then show ?case using Cons.IH [OF b] by simp
qed

lemma match_open_space: "is_space c \<Longrightarrow> match_open (c # cs) = None"
  by (auto simp: match_open_def starts_with_ci_def is_space_def canonicalize_def)

lemma match_example_lead:
  "\<forall>c\<in>set ws. is_space c \<Longrightarrow> match_open s = Some r \<Longrightarrow> match_example (ws @ s) = Some r"
proof (induction ws)
  case Nil
  then show ?case by (cases s) (auto simp: match_open_space split: option.splits)
next
  case (Cons c ws)
  then show ?case by simp
qed

lemma match_open_tag:
  assumes o: "map canonicalize otag = map canonicalize ''<caption>''"
    and m: "match_lazy s = Some (g1, g2, g3)"
  shows "match_open (otag @ x # s) = Some (x # g1, g2, g3)"
proof -
  have A: "starts_with_ci (otag @ x # s) ''<caption>''" by (rule starts_with_ci_tag [OF o])
  have B: "drop (length ''<caption>'') (otag @ x # s) = x # s" by (rule drop_tag [OF o])
  show ?thesis
    by (simp only: match_open_def A B if_True list.case m option.case prod.case)
qed

lemma match_open_contains: "match_open s = Some r \<Longrightarrow> contains_ci s ''<caption>''"
  by (cases s) (auto simp: match_open_def starts_with_ci_def split: if_splits)

lemma match_example_contains: "match_example s = Some r \<Longrightarrow> contains_ci s ''<caption>''"
proof (induction s)
  case Nil
  then show ?case by (auto dest: match_open_contains)
next
  case (Cons c s)
  then show ?case
    by (auto split: option.splits if_splits dest: match_open_contains)
qed

text \<open>
  C8, as amended. An example made of optional white space, an opening caption tag in any
  letter case, a non-empty inner text holding no closing caption tag, a closing caption tag
  in any letter case, optional white space (line breaks included), a line feed or carriage
  return, and a non-empty code whose leading white space holds no line break, is split
  into \<open>caption\<close>, the inner text, and \<open>code\<close>, the text after the last line break of the
  white space that follows the tag. An example with no opening caption tag has an empty
  \<open>caption\<close> and \<open>code\<close> equal to the input.
\<close>

theorem formatExample_caption:
  "((\<forall>c\<in>set ws. is_space c) \<and> map canonicalize otag = map canonicalize ''<caption>'' \<and>
    inner \<noteq> [] \<and> \<not> contains_ci inner ''</caption>'' \<and>
    map canonicalize ctag = map canonicalize ''</caption>'' \<and>
    (\<forall>c\<in>set gap. is_space c) \<and> is_line_end nl \<and>
    body \<noteq> [] \<and> (\<forall>c\<in>set (takeWhile is_space body). \<not> is_line_end c)
    \<longrightarrow> formatExample (ws @ otag @ inner @ ctag @ gap @ [nl] @ body) =
          \<lparr>caption = inner, code = body\<rparr>) \<and>
   (\<not> contains_ci ex ''<caption>'' \<longrightarrow> formatExample ex = \<lparr>caption = [], code = ex\<rparr>)"
proof (intro conjI impI)
  assume h: "(\<forall>c\<in>set ws. is_space c) \<and> map canonicalize otag = map canonicalize ''<caption>'' \<and>
    inner \<noteq> [] \<and> \<not> contains_ci inner ''</caption>'' \<and>
    map canonicalize ctag = map canonicalize ''</caption>'' \<and>
    (\<forall>c\<in>set gap. is_space c) \<and> is_line_end nl \<and>
    body \<noteq> [] \<and> (\<forall>c\<in>set (takeWhile is_space body). \<not> is_line_end c)"
  then obtain x s where inner: "inner = x # s" by (cases inner) auto
  from h inner have s: "\<not> contains_ci s ''</caption>''" by simp
  have tail: "match_tail (gap @ nl # body) = Some (gap @ [nl], body)"
    using h by (intro match_tail_gap) simp_all
  have "match_lazy (s @ ctag @ gap @ nl # body) = Some (s, gap @ [nl], body)"
    using h by (intro match_lazy_inner [OF _ tail s]) simp
  then have "match_open (otag @ x # s @ ctag @ gap @ nl # body) = Some (x # s, gap @ [nl], body)"
    using h by (intro match_open_tag) simp_all
  then have "match_example (ws @ otag @ x # s @ ctag @ gap @ nl # body) = Some (x # s, gap @ [nl], body)"
    using h by (intro match_example_lead) simp_all
  then show "formatExample (ws @ otag @ inner @ ctag @ gap @ [nl] @ body) =
          \<lparr>caption = inner, code = body\<rparr>"
    using h by (simp add: formatExample_def inner)
next
  assume "\<not> contains_ci ex ''<caption>''"
  then have "match_example ex = None"
    using match_example_contains [of ex] by (cases "match_example ex") auto
  then show "formatExample ex = \<lparr>caption = [], code = ex\<rparr>"
    by (simp add: formatExample_def)
qed

theorem formatExample_caption_witness:
  "formatExample (''  <CAPTION>Title</Caption> '' @ [CHR 0x0A] @ ''  code'') =
     \<lparr>caption = ''Title'', code = ''  code''\<rparr> \<and>
   formatExample ''plain()'' = \<lparr>caption = [], code = ''plain()''\<rparr>"
  using formatExample_caption
    [of "''  ''" "''<CAPTION>''" "''Title''" "''</Caption>''" "'' ''" "CHR 0x0A" "''  code''"
        "''plain()''"]
  by (simp add: is_space_def is_line_end_def canonicalize_def starts_with_ci_def)

text \<open>
  C8 as stated fails for an empty caption, where nothing is split off, and for a blank
  line after the tag, which is not part of \<open>code\<close>.
\<close>

theorem formatExample_caption_counterexample:
  "code (formatExample (''<caption></caption>'' @ [CHR 0x0A] @ ''x'')) =
     ''<caption></caption>'' @ [CHR 0x0A] @ ''x'' \<and>
   code (formatExample (''<caption></caption>'' @ [CHR 0x0A] @ ''x'')) \<noteq> ''x'' \<and>
   code (formatExample (''<caption>T</caption>'' @ [CHR 0x0A, CHR 0x0A] @ ''x'')) = ''x'' \<and>
   code (formatExample (''<caption>T</caption>'' @ [CHR 0x0A, CHR 0x0A] @ ''x'')) \<noteq>
     [CHR 0x0A] @ ''x''"
  by (simp add: formatExample_def match_open_def starts_with_ci_def canonicalize_def
      is_space_def is_line_end_def)

section \<open>Verified properties: signatures and the two passes\<close>

lemma needsSignature_iff:
  "needsSignature d =
     (kind d = ''function'' \<or> kind d = ''class'' \<or>
      (kind d = ''typedef'' \<and>
       (\<exists>t ns. type d = Some t \<and> names t = Some ns \<and>
          (\<exists>n\<in>set ns. toLowerCase n = ''function''))))"
  by (auto simp: needsSignature_def list_ex_iff split: option.splits)

lemma needsSignature_cong:
  "kind d' = kind d \<Longrightarrow> type d' = type d \<Longrightarrow> needsSignature d' = needsSignature d"
  by (simp add: needsSignature_def)

lemma needsSignature_kind:
  "needsSignature d \<Longrightarrow> kind d \<noteq> ''member'' \<and> kind d \<noteq> ''constant''"
  by (auto simp: needsSignature_def split: if_splits)

lemma addSignatureParams_upd: "\<exists>s. addSignatureParams f = f\<lparr>signature := Some s\<rparr>"
  unfolding addSignatureParams_def Let_def by blast

lemma addSignatureReturns_upd:
  "\<exists>b r. addSignatureReturns E h f = f\<lparr>signature := Some (signature_spans b r)\<rparr>"
  unfolding addSignatureReturns_def Let_def signature_spans_def by blast

lemma addSignatureTypes_upd: "\<exists>s. addSignatureTypes E h f = f\<lparr>signature := Some s\<rparr>"
  unfolding addSignatureTypes_def Let_def by blast

lemma addAttribs_upd: "\<exists>a. addAttribs E f = f\<lparr>attribs := Some a\<rparr>"
  unfolding addAttribs_def Let_def by blast

lemma setShortenedPath_shape:
  assumes "setShortenedPath E files d = Inr d1"
  shows "\<exists>m. d1 = d\<lparr>meta := m\<rparr> \<and> short_meta (meta d) m"
proof -
  have "d1 = d \<or>
      (\<exists>x s. meta d = Some x \<and> s \<noteq> [] \<and> d1 = d\<lparr>meta := Some (x\<lparr>shortpath := Some s\<rparr>)\<rparr>)"
    using assms unfolding setShortenedPath_def by (auto split: option.splits if_splits)
  then show ?thesis
  proof
    assume "d1 = d"
    then have "d1 = d\<lparr>meta := meta d\<rparr> \<and> short_meta (meta d) (meta d)"
      by (simp add: short_meta_def)
    then show ?thesis by blast
  next
    assume "\<exists>x s. meta d = Some x \<and> s \<noteq> [] \<and>
        d1 = d\<lparr>meta := Some (x\<lparr>shortpath := Some s\<rparr>)\<rparr>"
    then show ?thesis unfolding short_meta_def by blast
  qed
qed

lemma setDocletId_shape:
  assumes "setDocletId E h d = Inr d2"
  shows "\<exists>i. d2 = d\<lparr>doclet_id := Some i\<rparr>"
  using assms unfolding setDocletId_def by (auto split: option.splits if_splits)

lemma addSignatures_shape:
  "\<exists>a sig anc.
     addSignatures E h dw d =
       d\<lparr>kind := (if kind d = ''constant'' then ''member'' else kind d),
          attribs := a, signature := sig, ancestors := Some anc\<rparr> \<and>
     (if needsSignature d then (\<exists>b r. sig = Some (signature_spans b r))
      else if kind d = ''member'' \<or> kind d = ''constant'' then sig \<noteq> None
      else sig = signature d)"
proof -
  define d3 where "d3 = (if needsSignature d
               then addAttribs E (addSignatureReturns E h (addSignatureParams d))
               else d)"
  define d4 where "d4 = d3\<lparr>ancestors := Some (getAncestorLinks E h (dw d3) d3)\<rparr>"
  define d5 where "d5 = (if kind d4 = ''member''
                                 then addAttribs E (addSignatureTypes E h d4) else d4)"
  define d6 where "d6 = (if kind d5 = ''constant''
                         then (addAttribs E (addSignatureTypes E h d5))\<lparr>kind := ''member''\<rparr>
                         else d5)"
  have res: "addSignatures E h dw d = d6"
    unfolding addSignatures_def d6_def d5_def d4_def d3_def Let_def by (rule refl)
  show ?thesis
  proof (cases "needsSignature d")
    case True
    obtain s0 where s0: "addSignatureParams d = d\<lparr>signature := Some s0\<rparr>"
      using addSignatureParams_upd [of d] by auto
    obtain b r where br: "addSignatureReturns E h (d\<lparr>signature := Some s0\<rparr>) =
        d\<lparr>signature := Some (signature_spans b r)\<rparr>"
      using addSignatureReturns_upd [of E h "d\<lparr>signature := Some s0\<rparr>"] by auto
    obtain a where a: "addAttribs E (d\<lparr>signature := Some (signature_spans b r)\<rparr>) =
        d\<lparr>signature := Some (signature_spans b r), attribs := Some a\<rparr>"
      using addAttribs_upd [of E "d\<lparr>signature := Some (signature_spans b r)\<rparr>"] by auto
    have d3': "d3 = d\<lparr>signature := Some (signature_spans b r), attribs := Some a\<rparr>"
      using True s0 br a by (simp add: d3_def)
    have k: "kind d \<noteq> ''member''" "kind d \<noteq> ''constant''"
      using needsSignature_kind [OF True] by simp_all
    have "d6 = d\<lparr>signature := Some (signature_spans b r),
        attribs := Some a, ancestors := Some (getAncestorLinks E h (dw d3) d3)\<rparr>"
      using k by (simp add: d6_def d5_def d4_def d3')
    then have "addSignatures E h dw d =
        d\<lparr>kind := kind d, attribs := Some a, signature := Some (signature_spans b r),
          ancestors := Some (getAncestorLinks E h (dw d3) d3)\<rparr>"
      unfolding res by simp
    moreover have "(if kind d = ''constant'' then ''member'' else kind d) = kind d"
      using k by simp
    ultimately show ?thesis using True
      by (intro exI [of _ "Some a"] exI [of _ "Some (signature_spans b r)"]
          exI [of _ "getAncestorLinks E h (dw d3) d3"])
        (simp only: if_True simp_thms, blast)
  next
    case False
    then have d3': "d3 = d" by (simp add: d3_def)
    have d4': "d4 = d\<lparr>ancestors := Some (getAncestorLinks E h (dw d3) d3)\<rparr>"
      by (simp add: d4_def d3')
    have k4: "kind d4 = kind d" by (simp add: d4')
    show ?thesis
    proof (cases "kind d = ''member'' \<or> kind d = ''constant''")
      case False
      then have "d6 = d4" using k4 by (simp add: d6_def d5_def)
      then have "addSignatures E h dw d =
          d\<lparr>kind := kind d, attribs := attribs d, signature := signature d,
            ancestors := Some (getAncestorLinks E h (dw d3) d3)\<rparr>"
        unfolding res d4' by simp
      moreover have "(if kind d = ''constant'' then ''member'' else kind d) = kind d"
        using False by simp
      ultimately show ?thesis using False \<open>\<not> needsSignature d\<close>
        by (intro exI [of _ "attribs d"] exI [of _ "signature d"]
            exI [of _ "getAncestorLinks E h (dw d3) d3"])
          (simp only: if_False simp_thms)
    next
      case True
      obtain s where s: "addSignatureTypes E h d4 = d4\<lparr>signature := Some s\<rparr>"
        using addSignatureTypes_upd [of E h d4] by auto
      obtain a where a: "addAttribs E (d4\<lparr>signature := Some s\<rparr>) =
          d4\<lparr>signature := Some s, attribs := Some a\<rparr>"
        using addAttribs_upd [of E "d4\<lparr>signature := Some s\<rparr>"] by auto
      have "d6 = d4\<lparr>signature := Some s, attribs := Some a, kind := ''member''\<rparr>"
      proof (cases "kind d = ''member''")
        case True
        then show ?thesis using s a k4 by (simp add: d6_def d5_def)
      next
        case False
        with \<open>kind d = ''member'' \<or> kind d = ''constant''\<close> have "kind d = ''constant''"
          by simp
        then show ?thesis using s a k4 by (simp add: d6_def d5_def)
      qed
      then have "addSignatures E h dw d =
          d\<lparr>kind := ''member'', attribs := Some a, signature := Some s,
            ancestors := Some (getAncestorLinks E h (dw d3) d3)\<rparr>"
        unfolding res d4' by simp
      moreover have "(if kind d = ''constant'' then ''member'' else kind d) = ''member''"
        using True by (cases "kind d = ''constant''") simp_all
      ultimately show ?thesis using \<open>\<not> needsSignature d\<close> True
        by (intro exI [of _ "Some a"] exI [of _ "Some s"]
            exI [of _ "getAncestorLinks E h (dw d3) d3"])
          (simp only: if_False if_True option.distinct not_False_eq_True simp_thms)
    qed
  qed
qed

lemma setDocletInformation_shape:
  assumes "setDocletInformation E files dw d h = Inr (d', h')"
  shows "\<exists>m i a sig anc.
     d' = d\<lparr>kind := (if kind d = ''constant'' then ''member'' else kind d),
            meta := m, attribs := a, signature := sig, doclet_id := Some i,
            ancestors := Some anc\<rparr> \<and>
     short_meta (meta d) m \<and>
     (if needsSignature d then (\<exists>b r. sig = Some (signature_spans b r))
      else if kind d = ''member'' \<or> kind d = ''constant'' then sig \<noteq> None
      else sig = signature d)"
proof -
  obtain link h1 where c: "createLink E h d = (link, h1)" by (cases "createLink E h d")
  define h2 where "h2 = registerLink E h1 (Some (longname d)) link"
  from assms obtain d1 where r1: "setShortenedPath E files d = Inr d1"
    by (cases "setShortenedPath E files d") (auto simp: setDocletInformation_def c Let_def)
  from assms r1 obtain d2 where r2: "setDocletId E h2 d1 = Inr d2"
    by (cases "setDocletId E h2 d1") (auto simp: setDocletInformation_def c Let_def h2_def)
  from assms r1 r2 have res: "d' = addSignatures E h2 dw d2"
    by (auto simp: setDocletInformation_def c Let_def h2_def)
  obtain m where m: "d1 = d\<lparr>meta := m\<rparr>" "short_meta (meta d) m"
    using setShortenedPath_shape [OF r1] by blast
  obtain i where i: "d2 = d1\<lparr>doclet_id := Some i\<rparr>"
    using setDocletId_shape [OF r2] by blast
  have d2: "d2 = d\<lparr>meta := m, doclet_id := Some i\<rparr>" by (simp add: i m)
  have ns: "needsSignature d2 = needsSignature d"
    by (rule needsSignature_cong) (simp_all add: d2)
  have k2: "kind d2 = kind d" and s2: "signature d2 = signature d" by (simp_all add: d2)
  obtain a sig anc where s: "addSignatures E h2 dw d2 =
       d2\<lparr>kind := (if kind d2 = ''constant'' then ''member'' else kind d2),
          attribs := a, signature := sig, ancestors := Some anc\<rparr>"
     "(if needsSignature d2 then (\<exists>b r. sig = Some (signature_spans b r))
      else if kind d2 = ''member'' \<or> kind d2 = ''constant'' then sig \<noteq> None
      else sig = signature d2)"
    using addSignatures_shape [of E h2 dw d2] by blast
  have "d' = d\<lparr>kind := (if kind d = ''constant'' then ''member'' else kind d),
            meta := m, attribs := a, signature := sig, doclet_id := Some i,
            ancestors := Some anc\<rparr>"
    unfolding res s(1) k2 by (simp add: d2)
  moreover have "(if needsSignature d then (\<exists>b r. sig = Some (signature_spans b r))
      else if kind d = ''member'' \<or> kind d = ''constant'' then sig \<noteq> None
      else sig = signature d)"
    using s(2) unfolding ns k2 s2 .
  ultimately show ?thesis using m(2) by blast
qed

text \<open>
  C1, as amended. \<open>needsSignature\<close> holds exactly for the kinds \<open>function\<close> and \<open>class\<close> and
  for a \<open>typedef\<close> whose list of type names has an entry that is \<open>function\<close> in lower case.
  The second pass gives a doclet that has no signature yet a signature string exactly when
  \<open>needsSignature\<close> holds or the kind is \<open>member\<close> or \<open>constant\<close>; when \<open>needsSignature\<close>
  holds, the string is a signature span followed by a type-signature span.
\<close>

theorem signature_given:
  "needsSignature d =
     (kind d = ''function'' \<or> kind d = ''class'' \<or>
      (kind d = ''typedef'' \<and>
       (\<exists>t ns. type d = Some t \<and> names t = Some ns \<and>
          (\<exists>n\<in>set ns. toLowerCase n = ''function'')))) \<and>
   (signature d = None \<and> setDocletInformation E files dw d h = Inr (d', h') \<longrightarrow>
      (signature d' \<noteq> None) =
        (needsSignature d \<or> kind d = ''member'' \<or> kind d = ''constant'') \<and>
      (needsSignature d \<longrightarrow> (\<exists>b r. signature d' = Some (signature_spans b r))))"
proof (intro conjI impI)
  show "needsSignature d =
     (kind d = ''function'' \<or> kind d = ''class'' \<or>
      (kind d = ''typedef'' \<and>
       (\<exists>t ns. type d = Some t \<and> names t = Some ns \<and>
          (\<exists>n\<in>set ns. toLowerCase n = ''function''))))"
    by (rule needsSignature_iff)
next
  assume a: "signature d = None \<and> setDocletInformation E files dw d h = Inr (d', h')"
  then obtain sig where sig: "signature d' = sig"
     "(if needsSignature d then (\<exists>b r. sig = Some (signature_spans b r))
      else if kind d = ''member'' \<or> kind d = ''constant'' then sig \<noteq> None
      else sig = signature d)"
    using setDocletInformation_shape [of E files dw d h d' h'] by auto
  show "(signature d' \<noteq> None) =
        (needsSignature d \<or> kind d = ''member'' \<or> kind d = ''constant'')"
    using sig a by (auto split: if_splits)
  assume "needsSignature d"
  then show "\<exists>b r. signature d' = Some (signature_spans b r)"
    using sig by simp
qed

theorem signature_given_witness:
  "signature (fst (projr (setDocletInformation plain_host [] (\<lambda>d. [d])
       (bare_doclet ''function'' ''f'' ''f'') []))) = Some (signature_spans ''()'' []) \<and>
   signature (fst (projr (setDocletInformation plain_host [] (\<lambda>d. [d])
       (bare_doclet ''member'' ''m'' ''A#m'') []))) = Some ''<span class=\"type-signature\"></span>'' \<and>
   signature (fst (projr (setDocletInformation plain_host [] (\<lambda>d. [d])
       (bare_doclet ''namespace'' ''ns'' ''ns'') []))) = None"
  using signature_given [of "bare_doclet ''function'' ''f'' ''f''" plain_host "[]" "\<lambda>d. [d]" "[]"
      "fst (projr (setDocletInformation plain_host [] (\<lambda>d. [d])
         (bare_doclet ''function'' ''f'' ''f'') []))"
      "snd (projr (setDocletInformation plain_host [] (\<lambda>d. [d])
         (bare_doclet ''function'' ''f'' ''f'') []))"]
  by (simp add: setDocletInformation_def setShortenedPath_def setDocletId_def addSignatures_def
      needsSignature_def addSignatureParams_def addSignatureReturns_def addSignatureTypes_def
      addAttribs_def buildAttribsString_def or_empty_def after_last_hash_def
      plain_host_def bare_doclet_def signature_spans_def Let_def)

text \<open>
  C1 as stated fails for a doclet of kind \<open>member\<close>: it is not a function, a class or a
  typedef, and the second pass gives it a signature string.
\<close>

theorem signature_given_counterexample:
  "kind (bare_doclet ''member'' ''m'' ''A#m'') \<noteq> ''function'' \<and>
   kind (bare_doclet ''member'' ''m'' ''A#m'') \<noteq> ''class'' \<and>
   kind (bare_doclet ''member'' ''m'' ''A#m'') \<noteq> ''typedef'' \<and>
   signature (bare_doclet ''member'' ''m'' ''A#m'') = None \<and>
   map_sum id (signature \<circ> fst)
     (setDocletInformation plain_host [] (\<lambda>d. [d]) (bare_doclet ''member'' ''m'' ''A#m'') []) =
     Inr (Some ''<span class=\"type-signature\"></span>'')"
  by (simp add: setDocletInformation_def setShortenedPath_def setDocletId_def addSignatures_def
      needsSignature_def addSignatureTypes_def
      addAttribs_def buildAttribsString_def or_empty_def after_last_hash_def
      plain_host_def bare_doclet_def Let_def)

lemma format_examples_shape:
  "format_examples xs = Inr ys \<Longrightarrow>
   list_all2 (\<lambda>x y. \<exists>t. x = ExText t \<and> y = ExFormatted (formatExample t)) xs ys"
proof (induction xs arbitrary: ys rule: format_examples.induct)
  case 1
  then show ?case by simp
next
  case (2 t xs)
  then show ?case by (auto split: sum.splits)
next
  case (3 r xs)
  then show ?case by simp
qed

lemma link_see_shape:
  "link_see E d xs h = (ys, h') \<Longrightarrow> list_all2 (\<lambda>x y. if is_hash_link x
                 then (\<exists>u. y = ''<a href=\"'' @ u @ ''\">'' @ x @ ''</a>'') else y = x) xs ys"
proof (induction xs arbitrary: ys h h')
  case Nil
  then show ?case by simp
next
  case (Cons x xs)
  obtain y h1 where y: "hashToLink E h d x = (y, h1)" by (cases "hashToLink E h d x")
  obtain zs h2 where zs: "link_see E d xs h1 = (zs, h2)" by (cases "link_see E d xs h1")
  from Cons.prems y zs have ys: "ys = y # zs" by simp
  have "if is_hash_link x
        then (\<exists>u. y = ''<a href=\"'' @ u @ ''\">'' @ x @ ''</a>'') else y = x"
    using y by (auto simp: hashToLink_def split: prod.splits)
  then show ?case using Cons.IH [OF zs] ys by simp
qed

lemma formatExamples_shape:
  assumes "formatExamples d = Inr d1"
  shows "\<exists>ex. d1 = d\<lparr>examples := ex\<rparr> \<and>
     rel_option (list_all2 (\<lambda>x y. \<exists>t. x = ExText t \<and> y = ExFormatted (formatExample t)))
       (examples d) ex"
proof (cases "examples d")
  case None
  then have "d1 = d\<lparr>examples := None\<rparr>" using assms by (simp add: formatExamples_def)
  then show ?thesis using None by (intro exI [of _ None]) simp
next
  case (Some xs)
  then obtain ys where ys: "format_examples xs = Inr ys" "d1 = d\<lparr>examples := Some ys\<rparr>"
    using assms by (cases "format_examples xs") (simp_all add: formatExamples_def)
  then show ?thesis
    using format_examples_shape [OF ys(1)] Some by (intro exI [of _ "Some ys"]) simp
qed

lemma linkSee_shape:
  assumes "linkSee E d h = (d1, h1)"
  shows "\<exists>sl. d1 = d\<lparr>see := sl\<rparr> \<and>
     rel_option (list_all2 (\<lambda>x y. if is_hash_link x
                 then (\<exists>u. y = ''<a href=\"'' @ u @ ''\">'' @ x @ ''</a>'') else y = x)) (see d) sl"
proof (cases "see d")
  case None
  then have "d1 = d\<lparr>see := None\<rparr>" using assms by (simp add: linkSee_def)
  then show ?thesis using None by (intro exI [of _ None]) simp
next
  case (Some xs)
  obtain ys h' where l: "link_see E d xs h = (ys, h')" by (cases "link_see E d xs h")
  then have "d1 = d\<lparr>see := Some ys\<rparr>" using Some assms by (simp add: linkSee_def)
  then show ?thesis using link_see_shape [OF l] Some by (intro exI [of _ "Some ys"]) simp
qed

lemma buildSourceFile_shape:
  assumes "buildSourceFile E d st = Inr (d1, st1)"
  shows "\<exists>ex sl. d1 = d\<lparr>attribs := Some [], examples := ex, see := sl\<rparr> \<and>
     rel_option (list_all2 (\<lambda>x y. \<exists>t. x = ExText t \<and> y = ExFormatted (formatExample t)))
       (examples d) ex \<and>
     rel_option (list_all2 (\<lambda>x y. if is_hash_link x
                 then (\<exists>u. y = ''<a href=\"'' @ u @ ''\">'' @ x @ ''</a>'') else y = x)) (see d) sl"
proof -
  from assms obtain da where da: "formatExamples (d\<lparr>attribs := Some []\<rparr>) = Inr da"
    by (cases "formatExamples (d\<lparr>attribs := Some []\<rparr>)") (simp_all add: buildSourceFile_def)
  obtain db h' where db: "linkSee E da (helper st) = (db, h')"
    by (cases "linkSee E da (helper st)")
  from assms da db have d1: "d1 = db" by (simp add: buildSourceFile_def)
  obtain ex where ex: "da = d\<lparr>attribs := Some [], examples := ex\<rparr>"
      "rel_option (list_all2 (\<lambda>x y. \<exists>t. x = ExText t \<and> y = ExFormatted (formatExample t)))
       (examples d) ex"
    using formatExamples_shape [OF da] by auto
  obtain sl where sl: "db = da\<lparr>see := sl\<rparr>"
      "rel_option (list_all2 (\<lambda>x y. if is_hash_link x
                 then (\<exists>u. y = ''<a href=\"'' @ u @ ''\">'' @ x @ ''</a>'') else y = x)) (see da) sl"
    using linkSee_shape [OF db] by auto
  have sd: "see da = see d" by (simp add: ex(1))
  have "d1 = d\<lparr>attribs := Some [], examples := ex, see := sl\<rparr>"
    using ex(1) sl(1) d1 by simp
  moreover note ex(2)
  moreover note sl(2) [unfolded sd]
  ultimately show ?thesis by blast
qed

lemma buildSourceFiles_each:
  "buildSourceFiles E ds st = Inr (ds1, st1) \<Longrightarrow>
   list_all2 (\<lambda>d d1. \<exists>s s'. buildSourceFile E d s = Inr (d1, s')) ds ds1"
proof (induction ds arbitrary: st ds1 st1)
  case Nil
  then show ?case by simp
next
  case (Cons d ds)
  from Cons.prems obtain d1 s1 where b: "buildSourceFile E d st = Inr (d1, s1)"
    by (cases "buildSourceFile E d st") auto
  from Cons.prems b obtain ds' s2 where r: "buildSourceFiles E ds s1 = Inr (ds', s2)"
    by (cases "buildSourceFiles E ds s1") auto
  from Cons.prems b r have "ds1 = d1 # ds'" by simp
  then show ?case using Cons.IH [OF r] b by auto
qed

lemma setDocletInformation_each_rel:
  "setDocletInformation_each E files done ds h = Inr (ds2, h2) \<Longrightarrow>
   \<exists>new. ds2 = done @ new \<and>
     list_all2 (\<lambda>d d2. \<exists>dw h h'. setDocletInformation E files dw d h = Inr (d2, h')) ds new"
proof (induction ds arbitrary: "done" h)
  case Nil
  then show ?case by simp
next
  case (Cons d ds)
  from Cons.prems obtain d2 h1 where
    b: "setDocletInformation E files (\<lambda>d'. done @ d' # ds) d h = Inr (d2, h1)"
    by (cases "setDocletInformation E files (\<lambda>d'. done @ d' # ds) d h") auto
  from Cons.prems b have r: "setDocletInformation_each E files (done @ [d2]) ds h1 = Inr (ds2, h2)"
    by simp
  from Cons.IH [OF r] obtain new where new: "ds2 = (done @ [d2]) @ new"
      "list_all2 (\<lambda>d d2. \<exists>dw h h'. setDocletInformation E files dw d h = Inr (d2, h')) ds new"
    by blast
  show ?case
    using new b by (intro exI [of _ "d2 # new"]) auto
qed

lemma addSignatures_attribs:
  "attribs d \<noteq> None \<Longrightarrow> attribs (addSignatures E h dw d) \<noteq> None"
  by (simp add: addSignatures_def addAttribs_def addSignatureTypes_def
      addSignatureReturns_def addSignatureParams_def Let_def)

lemma setDocletInformation_attribs:
  assumes "setDocletInformation E files dw d h = Inr (d', h')" "attribs d \<noteq> None"
  shows "attribs d' \<noteq> None"
proof -
  obtain link h1 where c: "createLink E h d = (link, h1)" by (cases "createLink E h d")
  define h2 where "h2 = registerLink E h1 (Some (longname d)) link"
  from assms(1) obtain d1 where r1: "setShortenedPath E files d = Inr d1"
    by (cases "setShortenedPath E files d") (auto simp: setDocletInformation_def c Let_def)
  from assms(1) r1 obtain d2 where r2: "setDocletId E h2 d1 = Inr d2"
    by (cases "setDocletId E h2 d1") (auto simp: setDocletInformation_def c Let_def h2_def)
  from assms(1) r1 r2 have res: "d' = addSignatures E h2 dw d2"
    by (auto simp: setDocletInformation_def c Let_def h2_def)
  obtain m where m: "d1 = d\<lparr>meta := m\<rparr>"
    using setShortenedPath_shape [OF r1] by blast
  obtain i where i: "d2 = d1\<lparr>doclet_id := Some i\<rparr>"
    using setDocletId_shape [OF r2] by blast
  have "attribs d2 \<noteq> None" using assms(2) by (simp add: i m)
  then show ?thesis unfolding res by (rule addSignatures_attribs)
qed

text \<open>
  C5, as amended. The two passes leave \<open>name\<close>, \<open>longname\<close>, \<open>description\<close>, \<open>type\<close>,
  \<open>params\<close> and \<open>returns\<close> of every doclet as they were. \<open>kind\<close> is kept, except that
  \<open>constant\<close> becomes \<open>member\<close>; every example string is replaced by the record that
  \<open>formatExample\<close> makes of it; an entry of \<open>see\<close> that is a hash reference is replaced by
  a link with the reference as its text, any other entry is kept; \<open>meta\<close> is kept, or kept
  with a non-empty \<open>shortpath\<close> added. The passes set \<open>attribs\<close>, \<open>id\<close> and \<open>ancestors\<close> on
  every doclet, and \<open>signature\<close> where \<open>needsSignature\<close> holds (a signature span and a
  type-signature span) or the kind is \<open>member\<close> or \<open>constant\<close>; the \<open>signature\<close> of any
  other doclet is as it was.
\<close>

theorem enrichment_frame:
  assumes "enrichDoclets E ds h = Inr (ds2, h2)"
  shows "list_all2
     (\<lambda>d d2.
        name d2 = name d \<and> longname d2 = longname d \<and> description d2 = description d \<and>
        type d2 = type d \<and> params d2 = params d \<and> returns d2 = returns d \<and>
        kind d2 = (if kind d = ''constant'' then ''member'' else kind d) \<and>
        rel_option (list_all2 (\<lambda>x y. \<exists>t. x = ExText t \<and> y = ExFormatted (formatExample t)))
          (examples d) (examples d2) \<and>
        rel_option (list_all2 (\<lambda>x y. if is_hash_link x
                 then (\<exists>u. y = ''<a href=\"'' @ u @ ''\">'' @ x @ ''</a>'') else y = x)) (see d) (see d2) \<and>
        short_meta (meta d) (meta d2) \<and>
        attribs d2 \<noteq> None \<and> doclet_id d2 \<noteq> None \<and> ancestors d2 \<noteq> None \<and>
        (if needsSignature d then (\<exists>b r. signature d2 = Some (signature_spans b r))
         else if kind d = ''member'' \<or> kind d = ''constant'' then signature d2 \<noteq> None
         else signature d2 = signature d))
     ds ds2"
proof -
  from assms obtain ds1 st where
    p1: "buildSourceFiles E ds \<lparr>sourceFiles = [], sourceFilePaths = [], helper = h\<rparr> =
      Inr (ds1, st)"
    by (cases "buildSourceFiles E ds \<lparr>sourceFiles = [], sourceFilePaths = [], helper = h\<rparr>")
      (auto simp: enrichDoclets_def)
  define files where "files = (if length (sourceFilePaths st) \<noteq> 0
                        then shortenPaths (sourceFiles st)
                               (path_commonPrefix E (sourceFilePaths st))
                        else sourceFiles st)"
  from assms p1 have p2: "setDocletInformation_each E files [] ds1 (helper st) = Inr (ds2, h2)"
    by (simp add: enrichDoclets_def files_def)
  have a: "list_all2 (\<lambda>d d1. \<exists>s s'. buildSourceFile E d s = Inr (d1, s')) ds ds1"
    by (rule buildSourceFiles_each [OF p1])
  have b: "list_all2 (\<lambda>d d2. \<exists>dw h h'. setDocletInformation E files dw d h = Inr (d2, h'))
      ds1 ds2"
    using setDocletInformation_each_rel [OF p2] by simp
  show ?thesis
  proof (rule list_all2_trans [OF _ a b])
    fix d d1 d2
    assume "\<exists>s s'. buildSourceFile E d s = Inr (d1, s')"
      and "\<exists>dw h h'. setDocletInformation E files dw d1 h = Inr (d2, h')"
    then obtain s s' dw g g' where
      x: "buildSourceFile E d s = Inr (d1, s')" and
      y: "setDocletInformation E files dw d1 g = Inr (d2, g')"
      by blast
    obtain ex sl where d1: "d1 = d\<lparr>attribs := Some [], examples := ex, see := sl\<rparr>"
      and ex: "rel_option (list_all2 (\<lambda>x y. \<exists>t. x = ExText t \<and> y = ExFormatted (formatExample t)))
       (examples d) ex"
      and sl: "rel_option (list_all2 (\<lambda>x y. if is_hash_link x
                 then (\<exists>u. y = ''<a href=\"'' @ u @ ''\">'' @ x @ ''</a>'') else y = x)) (see d) sl"
      using buildSourceFile_shape [OF x] by blast
    obtain m i a sig anc where d2: "d2 =
        d1\<lparr>kind := (if kind d1 = ''constant'' then ''member'' else kind d1),
            meta := m, attribs := a, signature := sig, doclet_id := Some i,
            ancestors := Some anc\<rparr>"
      and m: "short_meta (meta d1) m"
      and sg: "(if needsSignature d1 then (\<exists>b r. sig = Some (signature_spans b r))
        else if kind d1 = ''member'' \<or> kind d1 = ''constant'' then sig \<noteq> None
        else sig = signature d1)"
      using setDocletInformation_shape [OF y] by blast
    have ns: "needsSignature d1 = needsSignature d"
      by (rule needsSignature_cong) (simp_all add: d1)
    have k1: "kind d1 = kind d" and s1: "signature d1 = signature d" by (simp_all add: d1)
    have at: "attribs d2 \<noteq> None"
      by (rule setDocletInformation_attribs [OF y]) (simp add: d1)
    have sg': "(if needsSignature d then (\<exists>b r. signature d2 = Some (signature_spans b r))
         else if kind d = ''member'' \<or> kind d = ''constant'' then signature d2 \<noteq> None
         else signature d2 = signature d)"
    proof -
      have "signature d2 = sig" by (simp add: d2)
      then show ?thesis using sg unfolding ns k1 s1 by simp
    qed
    have ia: "doclet_id d2 \<noteq> None" "ancestors d2 \<noteq> None" by (simp_all add: d2)
    have "name d2 = name d" "longname d2 = longname d" "description d2 = description d"
      "type d2 = type d" "params d2 = params d" "returns d2 = returns d"
      "kind d2 = (if kind d = ''constant'' then ''member'' else kind d)"
      "examples d2 = ex" "see d2 = sl" "meta d2 = m" "meta d1 = meta d"
      by (simp_all add: d2 d1)
    then show "name d2 = name d \<and> longname d2 = longname d \<and> description d2 = description d \<and>
        type d2 = type d \<and> params d2 = params d \<and> returns d2 = returns d \<and>
        kind d2 = (if kind d = ''constant'' then ''member'' else kind d) \<and>
        rel_option (list_all2 (\<lambda>x y. \<exists>t. x = ExText t \<and> y = ExFormatted (formatExample t)))
          (examples d) (examples d2) \<and>
        rel_option (list_all2 (\<lambda>x y. if is_hash_link x
                 then (\<exists>u. y = ''<a href=\"'' @ u @ ''\">'' @ x @ ''</a>'') else y = x)) (see d) (see d2) \<and>
        short_meta (meta d) (meta d2) \<and>
        attribs d2 \<noteq> None \<and> doclet_id d2 \<noteq> None \<and> ancestors d2 \<noteq> None \<and>
        (if needsSignature d then (\<exists>b r. signature d2 = Some (signature_spans b r))
         else if kind d = ''member'' \<or> kind d = ''constant'' then signature d2 \<noteq> None
         else signature d2 = signature d)"
      using ex sl m at ia sg' by (simp only: simp_thms)
  qed
qed

lemmas enrich_defs =
  enrichDoclets_def buildSourceFile_def formatExamples_def linkSee_def addSourceFile_def
  hashToLink_def is_hash_link_def is_line_end_def getPathFromDoclet_def shortenPaths_def
  forward_slashes_def replace_def startsWith_def commonPrefix_def
  setDocletInformation_def setShortenedPath_def setDocletId_def addSignatures_def
  needsSignature_def addSignatureParams_def addSignatureReturns_def addSignatureTypes_def
  addAttribs_def buildAttribsString_def or_empty_def after_last_hash_def
  formatExample_def match_open_def starts_with_ci_def canonicalize_def is_space_def
  plain_host_def bare_doclet_def Let_def

theorem enrichment_frame_witness:
  "map name (fst (projr (enrichDoclets plain_host
     [(bare_doclet ''constant'' ''K'' ''K'')
        \<lparr>examples := Some [ExText ''K + 1''], see := Some [''#other'', ''plain''],
          meta := Some \<lparr>path = Some ''/src'', filename = ''x.js'', shortpath = None\<rparr>\<rparr>,
      bare_doclet ''function'' ''f'' ''f''] []))) = [''K'', ''f''] \<and>
   map kind (fst (projr (enrichDoclets plain_host
     [(bare_doclet ''constant'' ''K'' ''K'')
        \<lparr>examples := Some [ExText ''K + 1''], see := Some [''#other'', ''plain''],
          meta := Some \<lparr>path = Some ''/src'', filename = ''x.js'', shortpath = None\<rparr>\<rparr>,
      bare_doclet ''function'' ''f'' ''f''] []))) = [''member'', ''function'']"
  using enrichment_frame [of plain_host
     "[(bare_doclet ''constant'' ''K'' ''K'')
        \<lparr>examples := Some [ExText ''K + 1''], see := Some [''#other'', ''plain''],
          meta := Some \<lparr>path = Some ''/src'', filename = ''x.js'', shortpath = None\<rparr>\<rparr>,
      bare_doclet ''function'' ''f'' ''f'']" "[]"
     "fst (projr (enrichDoclets plain_host
     [(bare_doclet ''constant'' ''K'' ''K'')
        \<lparr>examples := Some [ExText ''K + 1''], see := Some [''#other'', ''plain''],
          meta := Some \<lparr>path = Some ''/src'', filename = ''x.js'', shortpath = None\<rparr>\<rparr>,
      bare_doclet ''function'' ''f'' ''f''] []))"
     "snd (projr (enrichDoclets plain_host
     [(bare_doclet ''constant'' ''K'' ''K'')
        \<lparr>examples := Some [ExText ''K + 1''], see := Some [''#other'', ''plain''],
          meta := Some \<lparr>path = Some ''/src'', filename = ''x.js'', shortpath = None\<rparr>\<rparr>,
      bare_doclet ''function'' ''f'' ''f''] []))"]
  by (simp add: enrich_defs)

text \<open>
  C5 as stated fails: the passes turn the kind \<open>constant\<close> into \<open>member\<close>, and they replace
  the example strings by records and a hash reference of \<open>see\<close> by a link.
\<close>

theorem enrichment_frame_counterexample:
  "map_sum id (map kind \<circ> fst)
     (enrichDoclets plain_host
        [(bare_doclet ''constant'' ''K'' ''K'')
           \<lparr>examples := Some [ExText ''K + 1''], see := Some [''#other'']\<rparr>] []) =
     Inr [''member''] \<and>
   map_sum id (map examples \<circ> fst)
     (enrichDoclets plain_host
        [(bare_doclet ''constant'' ''K'' ''K'')
           \<lparr>examples := Some [ExText ''K + 1''], see := Some [''#other'']\<rparr>] []) =
     Inr [Some [ExFormatted \<lparr>caption = [], code = ''K + 1''\<rparr>]] \<and>
   map_sum id (map see \<circ> fst)
     (enrichDoclets plain_host
        [(bare_doclet ''constant'' ''K'' ''K'')
           \<lparr>examples := Some [ExText ''K + 1''], see := Some [''#other'']\<rparr>] []) =
     Inr [Some [''<a href=\"K.html#other\">#other</a>'']]"
  by code_simp

section \<open>Verified properties: short paths\<close>

lemma find_first_prefix: "find_first pat (pat @ rest) = Some ([], rest)"
proof (cases "pat @ rest")
  case Nil
  then show ?thesis by simp
next
  case (Cons c cs)
  have "take (length pat) (pat @ rest) = pat" "drop (length pat) (pat @ rest) = rest"
    by simp_all
  then have "take (length pat) (c # cs) = pat" "drop (length pat) (c # cs) = rest"
    unfolding Cons by simp_all
  then show ?thesis unfolding Cons by (simp add: startsWith_def)
qed








section \<open>Verified properties: pages and static files\<close>

lemma generate_pages:
  "pages (generate E view ty ttl docs fname resolve w) =
     pages w @
     [\<lparr>out_path = path_join E (OUTDIR E) fname,
       out_html = (if resolve \<noteq> Some False
                   then resolveLinks E (hstate w)
                          (render E view (hstate w) ''container.tmpl'' (Container ty ttl docs))
                   else render E view (hstate w) ''container.tmpl'' (Container ty ttl docs)),
       out_encoding = ''utf8'', out_data = Container ty ttl docs\<rparr>]"
  by (simp add: generate_def Let_def)

lemma generate_logged: "logged (generate E view ty ttl docs fname resolve w) = logged w"
  by (simp add: generate_def Let_def)

lemma generateSourceFile_step:
  "\<exists>p. pages (generateSourceFile E view enc (file, f) w) = pages w @ [p] \<and>
       out_encoding p = ''utf8'' \<and>
       out_data p =
         Container ''Source'' (shortened f)
           [case readFileSync E (resolved f) enc of
              Inl message \<Rightarrow> DocUndefined
            | Inr text \<Rightarrow> DocSource (htmlsafe E text)]"
  "logged (generateSourceFile E view enc (file, f) w) =
     logged w @
     (case readFileSync E (resolved f) enc of
        Inl message \<Rightarrow> [''Error while generating source file '' @ file @ '': '' @ message]
      | Inr text \<Rightarrow> [])"
  by (auto simp: generateSourceFile_def generate_pages generate_logged Let_def
      split: prod.splits sum.splits)

lemma fold_generateSourceFile_pages:
  "\<exists>new. pages (fold (generateSourceFile E view enc) files w) = pages w @ new \<and>
       list_all (\<lambda>p. out_encoding p = ''utf8'') new \<and>
       map out_data new =
         map (\<lambda>(file, f).
               Container ''Source'' (shortened f)
                 [case readFileSync E (resolved f) enc of
                    Inl message \<Rightarrow> DocUndefined
                  | Inr text \<Rightarrow> DocSource (htmlsafe E text)]) files"
proof (induction files arbitrary: w)
  case Nil
  show ?case by simp
next
  case (Cons e files)
  obtain k f where e: "e = (k, f)" by (cases e)
  let ?w = "generateSourceFile E view enc (k, f) w"
  obtain p where p: "pages ?w = pages w @ [p]" "out_encoding p = ''utf8''"
      "out_data p =
       Container ''Source'' (shortened f)
         [case readFileSync E (resolved f) enc of
            Inl message \<Rightarrow> DocUndefined
          | Inr text \<Rightarrow> DocSource (htmlsafe E text)]"
    using generateSourceFile_step(1) [of E view enc k f w] by blast
  obtain new where new: "pages (fold (generateSourceFile E view enc) files ?w) = pages ?w @ new"
      "list_all (\<lambda>p. out_encoding p = ''utf8'') new"
      "map out_data new =
       map (\<lambda>(file, f).
             Container ''Source'' (shortened f)
               [case readFileSync E (resolved f) enc of
                  Inl message \<Rightarrow> DocUndefined
                | Inr text \<Rightarrow> DocSource (htmlsafe E text)]) files"
    using Cons.IH [of ?w] by blast
  show ?case
    using p new by (intro exI [of _ "p # new"]) (simp add: e)
qed

lemma fold_generateSourceFile_logged:
  "logged (fold (generateSourceFile E view enc) files w) =
     logged w @
     concat (map (\<lambda>(file, f).
                    case readFileSync E (resolved f) enc of
                      Inl message \<Rightarrow>
                        [''Error while generating source file '' @ file @ '': '' @ message]
                    | Inr text \<Rightarrow> []) files)"
proof (induction files arbitrary: w)
  case Nil
  show ?case by simp
next
  case (Cons e files)
  obtain k f where e: "e = (k, f)" by (cases e)
  show ?case
    using Cons.IH [of "generateSourceFile E view enc (k, f) w"]
      generateSourceFile_step(2) [of E view enc k f w]
    by (simp add: e)
qed

text \<open>
  C3. \<open>generateSourceFiles\<close> goes through the source files in the order of the keys and
  stops at none of them. For each it takes a file name of its own from the helper,
  registers the link, and writes one page: at that file name in the output directory, as
  UTF-8, the container template rendered (links unresolved) from the type \<open>Source\<close>, the
  short path and one document. For a file that is read, the document holds its
  HTML-escaped content and nothing is logged; for a file that cannot be read, the document
  is \<^verbatim>\<open>undefined\<close>, without any content of the file, and one error with the key and the
  message of the exception is logged; the run goes on with the next file either way. So
  there is one page for every file, in order, and one log entry for every failed read.
\<close>

theorem generateSourceFiles_continues:
  "generateSourceFiles E view [] encoding w = w \<and>
   generateSourceFiles E view ((k, f) # files) encoding w =
     generateSourceFiles E view files encoding
       (let enc = (case encoding of Some e \<Rightarrow> if e \<noteq> [] then e else ''utf8''
                   | None \<Rightarrow> ''utf8'');
            outfile = fst (getUniqueFilename E (hstate w) (shortened f));
            h = registerLink E (snd (getUniqueFilename E (hstate w) (shortened f)))
                  (shortened f) outfile;
            doc = (case readFileSync E (resolved f) enc of
                     Inl message \<Rightarrow> DocUndefined
                   | Inr text \<Rightarrow> DocSource (htmlsafe E text))
        in w\<lparr>hstate := h,
             logged := logged w @
               (case readFileSync E (resolved f) enc of
                  Inl message \<Rightarrow>
                    [''Error while generating source file '' @ k @ '': '' @ message]
                | Inr text \<Rightarrow> []),
             pages := pages w @
               [\<lparr>out_path = path_join E (OUTDIR E) outfile,
                 out_html = render E view h ''container.tmpl''
                              (Container ''Source'' (shortened f) [doc]),
                 out_encoding = ''utf8'',
                 out_data = Container ''Source'' (shortened f) [doc]\<rparr>]\<rparr>) \<and>
   (\<exists>new. pages (generateSourceFiles E view files encoding w) = pages w @ new \<and>
      map out_data new =
        map (\<lambda>(file, f).
              Container ''Source'' (shortened f)
                [case readFileSync E (resolved f)
                        (case encoding of Some e \<Rightarrow> if e \<noteq> [] then e else ''utf8''
                         | None \<Rightarrow> ''utf8'') of
                   Inl message \<Rightarrow> DocUndefined
                 | Inr text \<Rightarrow> DocSource (htmlsafe E text)]) files) \<and>
   logged (generateSourceFiles E view files encoding w) =
     logged w @
     concat (map (\<lambda>(file, f).
                    case readFileSync E (resolved f)
                           (case encoding of Some e \<Rightarrow> if e \<noteq> [] then e else ''utf8''
                            | None \<Rightarrow> ''utf8'') of
                      Inl message \<Rightarrow>
                        [''Error while generating source file '' @ file @ '': '' @ message]
                    | Inr text \<Rightarrow> []) files)"
proof (intro conjI)
  show "generateSourceFiles E view [] encoding w = w"
    by (simp add: generateSourceFiles_def)
  show "generateSourceFiles E view ((k, f) # files) encoding w =
     generateSourceFiles E view files encoding
       (let enc = (case encoding of Some e \<Rightarrow> if e \<noteq> [] then e else ''utf8''
                   | None \<Rightarrow> ''utf8'');
            outfile = fst (getUniqueFilename E (hstate w) (shortened f));
            h = registerLink E (snd (getUniqueFilename E (hstate w) (shortened f)))
                  (shortened f) outfile;
            doc = (case readFileSync E (resolved f) enc of
                     Inl message \<Rightarrow> DocUndefined
                   | Inr text \<Rightarrow> DocSource (htmlsafe E text))
        in w\<lparr>hstate := h,
             logged := logged w @
               (case readFileSync E (resolved f) enc of
                  Inl message \<Rightarrow>
                    [''Error while generating source file '' @ k @ '': '' @ message]
                | Inr text \<Rightarrow> []),
             pages := pages w @
               [\<lparr>out_path = path_join E (OUTDIR E) outfile,
                 out_html = render E view h ''container.tmpl''
                              (Container ''Source'' (shortened f) [doc]),
                 out_encoding = ''utf8'',
                 out_data = Container ''Source'' (shortened f) [doc]\<rparr>]\<rparr>)"
    by (cases "getUniqueFilename E (hstate w) (shortened f)")
      (simp add: generateSourceFiles_def generateSourceFile_def generate_def Let_def
        split: sum.splits)
  show "\<exists>new. pages (generateSourceFiles E view files encoding w) = pages w @ new \<and>
      map out_data new =
        map (\<lambda>(file, f).
              Container ''Source'' (shortened f)
                [case readFileSync E (resolved f)
                        (case encoding of Some e \<Rightarrow> if e \<noteq> [] then e else ''utf8''
                         | None \<Rightarrow> ''utf8'') of
                   Inl message \<Rightarrow> DocUndefined
                 | Inr text \<Rightarrow> DocSource (htmlsafe E text)]) files"
    unfolding generateSourceFiles_def Let_def
    using fold_generateSourceFile_pages [of E view _ files w] by blast
  show "logged (generateSourceFiles E view files encoding w) =
     logged w @
     concat (map (\<lambda>(file, f).
                    case readFileSync E (resolved f)
                           (case encoding of Some e \<Rightarrow> if e \<noteq> [] then e else ''utf8''
                            | None \<Rightarrow> ''utf8'') of
                      Inl message \<Rightarrow>
                        [''Error while generating source file '' @ file @ '': '' @ message]
                    | Inr text \<Rightarrow> []) files)"
    unfolding generateSourceFiles_def Let_def
    by (rule fold_generateSourceFile_logged)
qed

theorem generateSourceFiles_continues_witness:
  "generateSourceFiles plain_host ()
       [(''/src/gone.js'', \<lparr>resolved = ''/src/gone.js'', shortened = Some ''gone.js''\<rparr>),
        (''/src/x.js'', \<lparr>resolved = ''/src/x.js'', shortened = Some ''x.js''\<rparr>)]
       None empty_world =
     \<lparr>hstate = [(''gone.js'', ''gone.js.html''), (''x.js'', ''x.js.html'')],
      pages =
        [\<lparr>out_path = ''out/gone.js.html'', out_html = ''container.tmpl:Source:gone.js:-'',
          out_encoding = ''utf8'',
          out_data = Container ''Source'' (Some ''gone.js'') [DocUndefined]\<rparr>,
         \<lparr>out_path = ''out/x.js.html'', out_html = ''container.tmpl:Source:x.js:a&lt;b'',
          out_encoding = ''utf8'',
          out_data = Container ''Source'' (Some ''x.js'') [DocSource ''a&lt;b'']\<rparr>],
      logged = [''Error while generating source file /src/gone.js: ENOENT''],
      fs_ops = []\<rparr>"
proof -
  let ?w1 = "\<lparr>hstate = [(''gone.js'', ''gone.js.html'')],
      pages =
        [\<lparr>out_path = ''out/gone.js.html'', out_html = ''container.tmpl:Source:gone.js:-'',
          out_encoding = ''utf8'',
          out_data = Container ''Source'' (Some ''gone.js'') [DocUndefined]\<rparr>],
      logged = [''Error while generating source file /src/gone.js: ENOENT''],
      fs_ops = []\<rparr>"
  let ?w2 = "\<lparr>hstate = [(''gone.js'', ''gone.js.html''), (''x.js'', ''x.js.html'')],
      pages =
        [\<lparr>out_path = ''out/gone.js.html'', out_html = ''container.tmpl:Source:gone.js:-'',
          out_encoding = ''utf8'',
          out_data = Container ''Source'' (Some ''gone.js'') [DocUndefined]\<rparr>,
         \<lparr>out_path = ''out/x.js.html'', out_html = ''container.tmpl:Source:x.js:a&lt;b'',
          out_encoding = ''utf8'',
          out_data = Container ''Source'' (Some ''x.js'') [DocSource ''a&lt;b'']\<rparr>],
      logged = [''Error while generating source file /src/gone.js: ENOENT''],
      fs_ops = []\<rparr>"
  have "generateSourceFiles plain_host ()
       [(''/src/gone.js'', \<lparr>resolved = ''/src/gone.js'', shortened = Some ''gone.js''\<rparr>),
        (''/src/x.js'', \<lparr>resolved = ''/src/x.js'', shortened = Some ''x.js''\<rparr>)]
       None empty_world =
     generateSourceFiles plain_host ()
       [(''/src/x.js'', \<lparr>resolved = ''/src/x.js'', shortened = Some ''x.js''\<rparr>)] None ?w1"
    using generateSourceFiles_continues [of plain_host "()" None empty_world
        "''/src/gone.js''" "\<lparr>resolved = ''/src/gone.js'', shortened = Some ''gone.js''\<rparr>"
        "[(''/src/x.js'', \<lparr>resolved = ''/src/x.js'', shortened = Some ''x.js''\<rparr>)]"]
    by (simp add: plain_host_def empty_world_def or_empty_def Let_def)
  also have "\<dots> = generateSourceFiles plain_host () [] None ?w2"
    using generateSourceFiles_continues [of plain_host "()" None ?w1
        "''/src/x.js''" "\<lparr>resolved = ''/src/x.js'', shortened = Some ''x.js''\<rparr>" "[]"]
    by (simp add: plain_host_def or_empty_def Let_def)
  also have "\<dots> = ?w2"
    using generateSourceFiles_continues [of plain_host "()" None ?w2] by simp
  finally show ?thesis .
qed

lemma generate_utf8: "utf8_only w \<Longrightarrow> utf8_only (generate E view ty ttl docs fname resolve w)"
  by (simp add: utf8_only_def generate_pages)

lemma fold_generateSourceFile_utf8:
  assumes "utf8_only w"
  shows "utf8_only (fold (generateSourceFile E view enc) files w)"
proof -
  obtain new where "pages (fold (generateSourceFile E view enc) files w) = pages w @ new"
      "list_all (\<lambda>p. out_encoding p = ''utf8'') new"
    using fold_generateSourceFile_pages [of E view enc files w] by blast
  then show ?thesis using assms by (simp add: utf8_only_def)
qed

lemma generateSourceFiles_utf8:
  "utf8_only w \<Longrightarrow> utf8_only (generateSourceFiles E view files encoding w)"
  unfolding generateSourceFiles_def Let_def by (rule fold_generateSourceFile_utf8)

lemma generateTutorial_utf8:
  "utf8_only w \<Longrightarrow> utf8_only (generateTutorial E view ttl tut fname w)"
  by (simp add: utf8_only_def generateTutorial_def Let_def)

lemma saveChildren_utf8:
  "utf8_only w \<Longrightarrow> utf8_only (saveChildren E view tut w)"
  "utf8_only w \<Longrightarrow> utf8_only (saveChildren_each E view tuts w)"
proof (induction E view tut w and E view tuts w rule: saveChildren_saveChildren_each.induct)
  case (1 E view t n c chs w)
  then show ?case by simp
next
  case (2 E view w)
  then show ?case by simp
next
  case (3 E view child rest w)
  then show ?case by (simp add: generateTutorial_utf8)
qed

lemma generateMember_utf8:
  "utf8_only w \<Longrightarrow> generateMember E view ttl dat ln w = Inr w' \<Longrightarrow> utf8_only w'"
  by (auto simp: generateMember_def generate_utf8 split: list.splits option.splits)

lemma generateMembers_utf8:
  "utf8_only w \<Longrightarrow> generateMembers E view tds ln w = Inr w' \<Longrightarrow> utf8_only w'"
proof (induction tds arbitrary: w)
  case Nil
  then show ?case by simp
next
  case (Cons td tds)
  obtain ttl dat where td: "td = (ttl, dat)" by (cases td)
  from Cons.prems(2) obtain w1 where w1: "generateMember E view ttl dat ln w = Inr w1"
      "generateMembers E view tds ln w1 = Inr w'"
    by (cases "generateMember E view ttl dat ln w") (auto simp: td)
  show ?case
    using Cons.IH [OF generateMember_utf8 [OF Cons.prems(1) w1(1)] w1(2)] .
qed

lemma generateMembers_each_utf8:
  "utf8_only w \<Longrightarrow> generateMembers_each E view mem lns w = Inr w' \<Longrightarrow> utf8_only w'"
proof (induction lns arbitrary: w)
  case Nil
  then show ?case by simp
next
  case (Cons ln lns)
  let ?tds = "[(''Module'', m_modules mem), (''Class'', m_classes mem),
              (''Namespace'', m_namespaces mem), (''Mixin'', m_mixins mem),
              (''External'', m_externals mem), (''Interface'', m_interfaces mem)]"
  from Cons.prems(2) obtain w1 where w1: "generateMembers E view ?tds ln w = Inr w1"
      "generateMembers_each E view mem lns w1 = Inr w'"
    by (cases "generateMembers E view ?tds ln w") auto
  show ?case
    using Cons.IH [OF generateMembers_utf8 [OF Cons.prems(1) w1(1)] w1(2)] .
qed

lemma generateHtml_utf8:
  assumes "utf8_only w" "generateHtml E view docs indexUrl globalUrl mem tutorials w = Inr w'"
  shows "utf8_only w'"
proof -
  define w1 where "w1 = generate E view [] (Some ''Home'') docs indexUrl None w"
  define w2 where "w2 = (if length (m_globals mem) \<noteq> 0
               then generate E view [] (Some ''Global'') [DocGlobalobj] globalUrl None w1
               else w1)"
  have u2: "utf8_only w2"
    using assms(1) by (simp add: w2_def w1_def generate_utf8)
  from assms(2) obtain w3 where
    w3: "generateMembers_each E view mem (map fst (longnameToUrl E (hstate w2))) w2 = Inr w3"
      "w' = saveChildren E view tutorials w3"
    unfolding generateHtml_def Let_def w1_def [symmetric] w2_def [symmetric]
    by (cases "generateMembers_each E view mem (map fst (longnameToUrl E (hstate w2))) w2")
      auto
  show ?thesis
    unfolding w3(2) by (rule saveChildren_utf8(1) [OF generateMembers_each_utf8 [OF u2 w3(1)]])
qed

text \<open>
  C9, as amended. Every file that \<open>generate\<close>, \<open>generateSourceFiles\<close>, \<open>generateMember\<close>,
  \<open>generateTutorial\<close>, \<open>saveChildren\<close> and the part of \<^verbatim>\<open>publish\<close> that generates the HTML
  write is written as UTF-8, whatever encoding the caller gives: the encoding of the
  options is used to read the source files only.
\<close>

theorem pages_written_utf8:
  "utf8_only w \<longrightarrow>
     utf8_only (generate E view ty ttl docs fname resolve w) \<and>
     utf8_only (generateSourceFiles E view files encoding w) \<and>
     utf8_only (generateTutorial E view ttl' tut fname' w) \<and>
     utf8_only (saveChildren E view tutorials w) \<and>
     (\<forall>w'. generateMember E view ttl'' dat ln w = Inr w' \<longrightarrow> utf8_only w') \<and>
     (\<forall>w'. generateHtml E view docs' indexUrl globalUrl mem tutorials w = Inr w' \<longrightarrow>
        utf8_only w')"
  by (intro impI conjI allI generate_utf8 generateSourceFiles_utf8 generateTutorial_utf8
      saveChildren_utf8(1))
    (auto intro: generateMember_utf8 generateHtml_utf8)

theorem pages_written_utf8_witness:
  "utf8_only empty_world \<and>
   utf8_only (generateSourceFiles plain_host ()
      [(''/src/x.js'', \<lparr>resolved = ''/src/x.js'', shortened = Some ''x.js''\<rparr>)]
      (Some ''latin1'') empty_world) \<and>
   map_sum id (map out_encoding \<circ> pages)
     (generateHtml plain_host () [DocMainpage None ''Main Page''] ''index.html'' ''global.html''
        \<lparr>m_modules = [], m_classes = [], m_namespaces = [], m_mixins = [], m_externals = [],
          m_interfaces = [], m_globals = []\<rparr>
        (Tutorial [] ''index'' [] [Tutorial ''Start'' ''start'' ''<p>go</p>'' []])
        empty_world) = Inr [''utf8'', ''utf8'']"
  using pages_written_utf8 [of empty_world plain_host "()" "''Source''" "Some ''x.js''" "[]"
      "''x.html''" None
      "[(''/src/x.js'', \<lparr>resolved = ''/src/x.js'', shortened = Some ''x.js''\<rparr>)]"
      "Some ''latin1''"]
  by (simp add: utf8_only_def empty_world_def generateHtml_def generate_def
      generateTutorial_def plain_host_def Let_def)

text \<open>
  C9 as stated fails: with the encoding \<^verbatim>\<open>latin1\<close> in the options, the page of a source
  file is written as UTF-8.
\<close>

theorem pages_written_utf8_counterexample:
  "map out_encoding (pages (generateSourceFiles plain_host ()
      [(''/src/x.js'', \<lparr>resolved = ''/src/x.js'', shortened = Some ''x.js''\<rparr>)]
      (Some ''latin1'') empty_world)) = [''utf8''] \<and>
   ''latin1'' \<notin> set (map out_encoding (pages (generateSourceFiles plain_host ()
      [(''/src/x.js'', \<lparr>resolved = ''/src/x.js'', shortened = Some ''x.js''\<rparr>)]
      (Some ''latin1'') empty_world)))"
  by (simp add: generateSourceFiles_def generateSourceFile_def generate_def plain_host_def
      empty_world_def Let_def)

text \<open>
  C2 fails on the code. With one include path under which the scan finds two files, the
  first copy reads the unbound \<^verbatim>\<open>fileName\<close> and the pass ends in a ReferenceError before
  any file is copied. Were \<^verbatim>\<open>fileName\<close> a property of the global object, that one file
  would be copied for each file found, and none of the files found. The pass over the
  static files of the template copies each file it lists.
\<close>

theorem copyUserStaticFiles_fails:
  "scan plain_host \<lparr>include_paths = Some [''/static'']\<rparr> [''/static''] 10 =
     [''/static/a.png'', ''/static/b.png''] \<and>
   copyUserStaticFiles plain_host None (Some \<lparr>include_paths = Some [''/static'']\<rparr>)
     empty_world = Inl ReferenceError \<and>
   map_sum id fs_ops
     (copyUserStaticFiles plain_host (Some ''zz'') (Some \<lparr>include_paths = Some [''/static'']\<rparr>)
        empty_world) =
     Inr [MkPath ''out'', CopyFile ''zz'' ''out'', MkPath ''out'', CopyFile ''zz'' ''out''] \<and>
   fs_ops (copyStaticFiles plain_host ''tpl'' empty_world) =
     [MkPath ''out/styles'', CopyFile ''tpl/static/styles/main.css'' ''out/styles/main.css'']"
  by (simp add: copyUserStaticFiles_def copyStaticFiles_def plain_host_def empty_world_def
      replace_def startsWith_def Let_def)

section \<open>Verified properties: module symbols\<close>

lemma map_of_assign: "map_of (assign k v al) k' = (if k' = k then Some v else map_of al k')"
  by (induction al) auto

lemma map_of_build_lookup_gen:
  "map_of
     (fold (\<lambda>r symbols.
              let ln = longname (props (st r))
              in assign ln ((case map_of symbols ln of Some rs \<Rightarrow> rs | None \<Rightarrow> []) @ [r])
                   symbols)
        ds tbl) k =
   (if filter (\<lambda>r. longname (props (st r)) = k) ds = [] then map_of tbl k
    else Some ((case map_of tbl k of Some rs \<Rightarrow> rs | None \<Rightarrow> []) @
               filter (\<lambda>r. longname (props (st r)) = k) ds))"
proof (induction ds arbitrary: tbl)
  case Nil
  show ?case by simp
next
  case (Cons r ds)
  show ?case
    unfolding fold_Cons comp_apply Cons.IH
    by (simp add: Let_def map_of_assign split: option.splits)
qed

lemma map_of_build_lookup:
  "map_of (build_lookup st ds) k =
   (if filter (\<lambda>r. longname (props (st r)) = k) ds = [] then None
    else Some (filter (\<lambda>r. longname (props (st r)) = k) ds))"
  unfolding build_lookup_def by (simp add: map_of_build_lookup_gen)

lemma attach_props: "props (attach S m st r) = props (st r)"
  by (simp add: attach_def split: option.splits)

lemma attach_other: "r \<noteq> m \<Longrightarrow> attach S m st r = st r"
  by (simp add: attach_def split: option.splits)

lemma fold_attach_props: "props (fold (attach S) mods st r) = props (st r)"
  by (induction mods arbitrary: st) (simp_all add: attach_props)

lemma fold_attach_other: "r \<notin> set mods \<Longrightarrow> fold (attach S) mods st r = st r"
  by (induction mods arbitrary: st) (simp_all add: attach_other)

lemma shown_symbol_props: "props s = props s' \<Longrightarrow> shown_symbol s = shown_symbol s'"
  by (simp add: shown_symbol_def)

lemma display_copy_props:
  "props (display_copy s) =
     (if kind (props s) = ''class'' \<or> kind (props s) = ''function''
      then (props s)\<lparr>name := replace (name (props s)) ''module:'' ''(require(\"'' @ ''\"))''\<rparr>
      else props s)"
  by (simp add: display_copy_def doop_def Let_def)

lemma fold_attach_modules:
  assumes "m \<in> set mods" "map_of S (longname (props (st m))) = Some rs"
  shows "map_option (map props) (modules (fold (attach S) mods st m)) =
     Some (map (\<lambda>r. props (display_copy (st r))) (filter (\<lambda>r. shown_symbol (st r)) rs))"
  using assms(1)
proof (induction mods rule: rev_induct)
  case Nil
  then show ?case by simp
next
  case (snoc x ms)
  let ?st = "fold (attach S) ms st"
  have p: "\<And>r. props (?st r) = props (st r)" by (rule fold_attach_props)
  show ?case
  proof (cases "x = m")
    case True
    have s: "(\<lambda>r. shown_symbol (?st r)) = (\<lambda>r. shown_symbol (st r))"
      using shown_symbol_props [OF p] by auto
    have "modules (attach S m ?st m) =
        Some (map (\<lambda>r. display_copy (?st r)) (filter (\<lambda>r. shown_symbol (?st r)) rs))"
      using assms(2) by (simp add: attach_def p)
    then show ?thesis using True by (simp add: s display_copy_props p comp_def)
  next
    case False
    then have "m \<in> set ms" using snoc.prems by simp
    then show ?thesis using snoc.IH False by (simp add: attach_other)
  qed
qed

lemma fold_attach_none:
  "map_of S (longname (props (st m))) = None \<Longrightarrow> fold (attach S) mods st m = st m"
proof (induction mods rule: rev_induct)
  case Nil
  then show ?case by simp
next
  case (snoc x ms)
  have p: "props (fold (attach S) ms st m) = props (st m)" by (rule fold_attach_props)
  show ?case
  proof (cases "x = m")
    case True
    then show ?thesis using snoc by (simp add: attach_def p)
  next
    case False
    then show ?thesis using snoc by (simp add: attach_other)
  qed
qed

text \<open>
  C4, as amended. \<open>attachModuleSymbols\<close> changes no doclet but the modules of its second
  argument, and of those only the \<^verbatim>\<open>modules\<close> list: every other property of every doclet,
  its \<open>name\<close> among them, is the same after the call, since the display name is rewritten
  in the copies.
\<close>

theorem attachModuleSymbols_frame:
  "props (attachModuleSymbols st doclets mods r) = props (st r) \<and>
   name (props (attachModuleSymbols st doclets mods r)) = name (props (st r)) \<and>
   (r \<notin> set mods \<longrightarrow> attachModuleSymbols st doclets mods r = st r)"
  by (simp add: attachModuleSymbols_def fold_attach_props fold_attach_other)

theorem attachModuleSymbols_frame_witness:
  "attachModuleSymbols
     (\<lambda>r. if r = 0 then Symbol (bare_doclet ''module'' ''foo'' ''module:foo'') None
          else Symbol ((bare_doclet ''class'' ''module:foo'' ''module:foo'')
                 \<lparr>description := Some ''A foo.''\<rparr>) None)
     [0, 1] [0] 1 =
   Symbol ((bare_doclet ''class'' ''module:foo'' ''module:foo'')
      \<lparr>description := Some ''A foo.''\<rparr>) None"
  using attachModuleSymbols_frame
    [of "\<lambda>r. if r = 0 then Symbol (bare_doclet ''module'' ''foo'' ''module:foo'') None
          else Symbol ((bare_doclet ''class'' ''module:foo'' ''module:foo'')
                 \<lparr>description := Some ''A foo.''\<rparr>) None" "[0, 1]" "[0]" 1]
  by simp

text \<open>
  C4 as stated fails: \<^verbatim>\<open>publish\<close> passes every doclet whose long name starts with
  \<^verbatim>\<open>module:\<close> as the first argument, the module doclets among them; the module at
  reference 0 is in that array, and its \<^verbatim>\<open>modules\<close> property is set by the call.
\<close>

theorem attachModuleSymbols_frame_counterexample:
  "modules ((\<lambda>r. if r = 0 then Symbol (bare_doclet ''module'' ''foo'' ''module:foo'') None
          else Symbol ((bare_doclet ''class'' ''module:foo'' ''module:foo'')
                 \<lparr>description := Some ''A foo.''\<rparr>) None) (0::nat)) = None \<and>
   modules (attachModuleSymbols
     (\<lambda>r. if r = 0 then Symbol (bare_doclet ''module'' ''foo'' ''module:foo'') None
          else Symbol ((bare_doclet ''class'' ''module:foo'' ''module:foo'')
                 \<lparr>description := Some ''A foo.''\<rparr>) None)
     [0, 1] [0] 0) =
   Some [Symbol ((bare_doclet ''class'' ''(require(\"foo\"))'' ''module:foo'')
           \<lparr>description := Some ''A foo.''\<rparr>) None]"
  by (simp add: attachModuleSymbols_def build_lookup_def attach_def shown_symbol_def
      display_copy_def doop_def bare_doclet_def replace_def startsWith_def Let_def)

lemma shown_symbol_iff:
  "shown_symbol s =
     ((\<exists>t. description (props s) = Some t \<and> t \<noteq> []) \<or> kind (props s) = ''class'')"
  by (cases "description (props s)") (simp_all add: shown_symbol_def)

lemma filter_single:
  "distinct xs \<Longrightarrow> c \<in> set xs \<Longrightarrow> P c \<Longrightarrow> (\<forall>r\<in>set xs. r \<noteq> c \<longrightarrow> \<not> P r) \<Longrightarrow>
   filter P xs = [c]"
proof (induction xs)
  case Nil
  then show ?case by simp
next
  case (Cons x xs)
  show ?case
  proof (cases "x = c")
    case True
    then have "c \<notin> set xs" using Cons.prems(1) by simp
    then have "\<forall>r\<in>set xs. \<not> P r" using Cons.prems(4) by auto
    then have "filter P xs = []" by (simp add: filter_empty_conv)
    then show ?thesis using True Cons.prems(3) by simp
  next
    case False
    then have "\<not> P x" "c \<in> set xs" using Cons.prems by auto
    then show ?thesis using Cons by simp
  qed
qed

lemma replace_module:
  "replace (''module:'' @ x) ''module:'' ''(require(\"'' = ''(require(\"'' @ x"
  unfolding replace_def find_first_prefix by simp

text \<open>
  C7, as amended. For a module of the second argument, the entries of its \<^verbatim>\<open>modules\<close>
  list have the properties of the doclets of the first argument that have its long name
  and either a non-empty description or the kind \<open>class\<close>, in their order; in the name of
  a class or function the first \<^verbatim>\<open>module:\<close> is replaced by \<^verbatim>\<open>(require("\<close> and \<^verbatim>\<open>"))\<close> is put
  behind it. So for a module with the long name \<^verbatim>\<open>module:foo\<close> and a class with that long
  name and the name \<^verbatim>\<open>module:foo\<close>, where the first argument holds the class once and no
  other doclet with that long name that has a non-empty description or is a class, the
  list holds exactly the copy of the class, with the name \<^verbatim>\<open>(require("foo"))\<close>.
\<close>

theorem attachModuleSymbols_attaches:
  "(m \<in> set mods \<longrightarrow>
      map_option (map props) (modules (attachModuleSymbols st doclets mods m)) =
        (if filter (\<lambda>r. longname (props (st r)) = longname (props (st m))) doclets = []
         then map_option (map props) (modules (st m))
         else Some
           (map (\<lambda>r. if kind (props (st r)) = ''class'' \<or> kind (props (st r)) = ''function''
                     then (props (st r))
                            \<lparr>name := replace (name (props (st r))) ''module:''
                                       ''(require(\"'' @ ''\"))''\<rparr>
                     else props (st r))
              (filter (\<lambda>r. (\<exists>t. description (props (st r)) = Some t \<and> t \<noteq> []) \<or>
                            kind (props (st r)) = ''class'')
                 (filter (\<lambda>r. longname (props (st r)) = longname (props (st m)))
                    doclets))))) \<and>
   (longname (props (st m)) = ''module:foo'' \<and>
    longname (props (st c)) = ''module:foo'' \<and> kind (props (st c)) = ''class'' \<and>
    name (props (st c)) = ''module:foo'' \<and>
    distinct doclets \<and> c \<in> set doclets \<and>
    (\<forall>r\<in>set doclets. r \<noteq> c \<longrightarrow>
       longname (props (st r)) \<noteq> ''module:foo'' \<or>
       (description (props (st r)) = None \<or> description (props (st r)) = Some []) \<and>
       kind (props (st r)) \<noteq> ''class'')
    \<longrightarrow>
      modules (attachModuleSymbols st doclets [m] m) =
        Some [Symbol ((props (st c))\<lparr>name := ''(require(\"foo\"))''\<rparr>) (modules (st c))])"
proof (intro conjI impI)
  assume m: "m \<in> set mods"
  let ?rs = "filter (\<lambda>r. longname (props (st r)) = longname (props (st m))) doclets"
  have sh: "(\<lambda>r. shown_symbol (st r)) =
      (\<lambda>r. (\<exists>t. description (props (st r)) = Some t \<and> t \<noteq> []) \<or>
            kind (props (st r)) = ''class'')"
    by (simp add: shown_symbol_iff)
  have dc: "(\<lambda>r. props (display_copy (st r))) =
      (\<lambda>r. if kind (props (st r)) = ''class'' \<or> kind (props (st r)) = ''function''
           then (props (st r))
                  \<lparr>name := replace (name (props (st r))) ''module:''
                             ''(require(\"'' @ ''\"))''\<rparr>
           else props (st r))"
    by (simp add: display_copy_props)
  show "map_option (map props) (modules (attachModuleSymbols st doclets mods m)) =
        (if ?rs = [] then map_option (map props) (modules (st m))
         else Some
           (map (\<lambda>r. if kind (props (st r)) = ''class'' \<or> kind (props (st r)) = ''function''
                     then (props (st r))
                            \<lparr>name := replace (name (props (st r))) ''module:''
                                       ''(require(\"'' @ ''\"))''\<rparr>
                     else props (st r))
              (filter (\<lambda>r. (\<exists>t. description (props (st r)) = Some t \<and> t \<noteq> []) \<or>
                            kind (props (st r)) = ''class'') ?rs)))"
  proof (cases "?rs = []")
    case True
    then have "map_of (build_lookup st doclets) (longname (props (st m))) = None"
      by (simp add: map_of_build_lookup)
    then show ?thesis
      using True by (simp add: attachModuleSymbols_def fold_attach_none)
  next
    case False
    then have "map_of (build_lookup st doclets) (longname (props (st m))) = Some ?rs"
      by (simp add: map_of_build_lookup)
    then have "map_option (map props) (modules (attachModuleSymbols st doclets mods m)) =
        Some (map (\<lambda>r. props (display_copy (st r))) (filter (\<lambda>r. shown_symbol (st r)) ?rs))"
      using fold_attach_modules [OF m, of "build_lookup st doclets" st ?rs]
      by (simp add: attachModuleSymbols_def)
    then show ?thesis using False unfolding sh dc by (simp only: if_False)
  qed
next
  assume h: "longname (props (st m)) = ''module:foo'' \<and>
    longname (props (st c)) = ''module:foo'' \<and> kind (props (st c)) = ''class'' \<and>
    name (props (st c)) = ''module:foo'' \<and>
    distinct doclets \<and> c \<in> set doclets \<and>
    (\<forall>r\<in>set doclets. r \<noteq> c \<longrightarrow>
       longname (props (st r)) \<noteq> ''module:foo'' \<or>
       (description (props (st r)) = None \<or> description (props (st r)) = Some []) \<and>
       kind (props (st r)) \<noteq> ''class'')"
  let ?P = "\<lambda>r. longname (props (st r)) = ''module:foo'' \<and> shown_symbol (st r)"
  have "?P c" using h by (simp add: shown_symbol_iff)
  moreover have "\<forall>r\<in>set doclets. r \<noteq> c \<longrightarrow> \<not> ?P r"
    using h by (auto simp: shown_symbol_iff)
  ultimately have single: "filter ?P doclets = [c]"
    using h by (intro filter_single) simp_all
  let ?rs = "filter (\<lambda>r. longname (props (st r)) = ''module:foo'') doclets"
  have f: "filter (\<lambda>r. shown_symbol (st r)) ?rs = [c]"
    using single by (simp add: conj_commute)
  have ne: "?rs \<noteq> []"
  proof
    assume "?rs = []"
    then have "filter (\<lambda>r. shown_symbol (st r)) ?rs = []" by (simp only: filter.simps)
    then show False unfolding f by simp
  qed
  have "map_of (build_lookup st doclets) (longname (props (st m))) = Some ?rs"
    using h ne by (simp add: map_of_build_lookup)
  then have "modules (attachModuleSymbols st doclets [m] m) = Some [display_copy (st c)]"
    using f by (simp add: attachModuleSymbols_def attach_def)
  moreover have "replace (name (props (st c))) ''module:'' ''(require(\"'' @ ''\"))'' =
      ''(require(\"foo\"))''"
    using h replace_module [of "''foo''"] by simp
  ultimately show "modules (attachModuleSymbols st doclets [m] m) =
        Some [Symbol ((props (st c))\<lparr>name := ''(require(\"foo\"))''\<rparr>) (modules (st c))]"
    using h by (simp add: display_copy_def doop_def Let_def)
qed

theorem attachModuleSymbols_attaches_witness:
  "modules (attachModuleSymbols
     (\<lambda>r. if r = 0 then Symbol (bare_doclet ''module'' ''foo'' ''module:foo'') None
          else Symbol ((bare_doclet ''class'' ''module:foo'' ''module:foo'')
                 \<lparr>description := Some ''A foo.''\<rparr>) None)
     [0, 1] [0] 0) =
   Some [Symbol ((bare_doclet ''class'' ''(require(\"foo\"))'' ''module:foo'')
           \<lparr>description := Some ''A foo.''\<rparr>) None]"
  using attachModuleSymbols_attaches
    [of 0 "[0]" "\<lambda>r. if r = 0 then Symbol (bare_doclet ''module'' ''foo'' ''module:foo'') None
          else Symbol ((bare_doclet ''class'' ''module:foo'' ''module:foo'')
                 \<lparr>description := Some ''A foo.''\<rparr>) None" "[0, 1]" 1]
  by (simp add: bare_doclet_def)

text \<open>
  C7 as stated fails. A module doclet that has a description and is itself in the first
  argument, where \<^verbatim>\<open>publish\<close> puts it, is attached to its own list before the class: the
  list does not hold exactly the class. And a class with the long name \<^verbatim>\<open>module:foo\<close> whose
  name is \<^verbatim>\<open>Foo\<close> is attached under the name \<^verbatim>\<open>Foo"))\<close>, without any \<^verbatim>\<open>require("foo")\<close>.
\<close>

theorem attachModuleSymbols_attaches_counterexample:
  "map_option (map (kind \<circ> props))
     (modules (attachModuleSymbols
        (\<lambda>r. if r = 0
             then Symbol ((bare_doclet ''module'' ''foo'' ''module:foo'')
                    \<lparr>description := Some ''The foo module.''\<rparr>) None
             else Symbol ((bare_doclet ''class'' ''module:foo'' ''module:foo'')
                    \<lparr>description := Some ''A foo.''\<rparr>) None)
        [0, 1] [0] 0)) = Some [''module'', ''class''] \<and>
   map_option (map (name \<circ> props))
     (modules (attachModuleSymbols
        (\<lambda>r. if r = 0 then Symbol (bare_doclet ''module'' ''foo'' ''module:foo'') None
             else Symbol ((bare_doclet ''class'' ''Foo'' ''module:foo'')
                    \<lparr>description := Some ''A foo.''\<rparr>) None)
        [1] [0] 0)) = Some [''Foo\"))'']"
  by (simp add: attachModuleSymbols_def build_lookup_def attach_def shown_symbol_def
      display_copy_def doop_def bare_doclet_def replace_def startsWith_def Let_def)

end
